theory Spec2Isabelle
  imports Main "HOL-Library.AList" "HOL-Library.Sublist" "HOL-Library.Char_ord"
    "HOL-Library.List_Lexorder"
begin

section \<open>JavaScript values used by the prober\<close>

text \<open>
  Strings are \<^typ>\<open>string\<close>; an optional value (\<^verbatim>\<open>string | undefined\<close>) is an
  \<^typ>\<open>string option\<close>, so that \<^verbatim>\<open>===\<close> on two such values is HOL equality.
  An HTTP status is an integer. A template literal prints \<^verbatim>\<open>undefined\<close> for an
  absent value and the decimal digits of a number.
\<close>

fun decimal :: "nat \<Rightarrow> string" where
  "decimal n =
     (if n < 10 then [''0123456789'' ! n]
      else decimal (n div 10) @ [''0123456789'' ! (n mod 10)])"

declare decimal.simps [simp del]

definition numToString :: "int \<Rightarrow> string" where
  "numToString i = (if i < 0 then ''-'' @ decimal (nat (- i)) else decimal (nat i))"

definition strToString :: "string option \<Rightarrow> string" where
  "strToString s = (case s of None \<Rightarrow> ''undefined'' | Some t \<Rightarrow> t)"

text \<open>\<^verbatim>\<open>a || b\<close> on optional strings: the empty string is falsy, as \<^verbatim>\<open>undefined\<close> is.\<close>

definition orElse :: "string option \<Rightarrow> string option \<Rightarrow> string option" where
  "orElse a b = (case a of None \<Rightarrow> b | Some s \<Rightarrow> if s = [] then b else Some s)"

definition truthy :: "string option \<Rightarrow> bool" where
  "truthy a = (case a of None \<Rightarrow> False | Some s \<Rightarrow> s \<noteq> [])"


section \<open>The usefulness classifier (mutations/compare.ts)\<close>

record ErrorDetails =
  type :: "string option"
  code :: "string option"
  message :: "string option"

record TopicResult =
  status :: int
  error :: "string option"
  errorDetails :: "ErrorDetails option"

record Topics =
  allowed :: TopicResult
  denied :: TopicResult
  nonexistent :: TopicResult

record UsefulMutationResult =
  useful :: bool
  reason :: string

definition SAFE_PROBE_MUTATIONS :: "string list" where
  "SAFE_PROBE_MUTATIONS =
     [''UntagResource:nonexistent-tag-key'', ''RemovePermission:invalid-label'']"

text \<open>\<^verbatim>\<open>r.errorDetails?.code || r.error\<close>\<close>

definition errorCode :: "TopicResult \<Rightarrow> string option" where
  "errorCode r =
     orElse (case errorDetails r of None \<Rightarrow> None | Some d \<Rightarrow> code d) (error r)"

text \<open>
  The first condition of \<^verbatim>\<open>isUsefulMutation\<close>: both names given and non-empty, the key
  \<^verbatim>\<open>`${actionName}:${mutationName}`\<close> in the set, allowed 200 and denied 403.
\<close>

definition isNoopProbe :: "Topics \<Rightarrow> string option \<Rightarrow> string option \<Rightarrow> bool" where
  "isNoopProbe mutation mutationName actionName =
     (truthy mutationName \<and> truthy actionName \<and>
      (strToString actionName @ '':'' @ strToString mutationName) \<in> set SAFE_PROBE_MUTATIONS \<and>
      status (allowed mutation) = 200 \<and> status (denied mutation) = 403)"

definition isUsefulMutation ::
  "Topics \<Rightarrow> string option \<Rightarrow> string option \<Rightarrow> UsefulMutationResult" where
  \<open>isUsefulMutation mutation mutationName actionName =
     (let allowedCode = errorCode (allowed mutation);
          deniedCode = errorCode (denied mutation);
          nonexistentCode = errorCode (nonexistent mutation)
      in
      if isNoopProbe mutation mutationName actionName then
        \<lparr>useful = True, reason = ''No-op probe: 200 success with no side effects''\<rparr>
      else if status (allowed mutation) = 403 then
        \<lparr>useful = False, reason = ''Allowed topic returned 403 (auth failed)''\<rparr>
      else if status (denied mutation) \<noteq> 403 then
        (if deniedCode = allowedCode then
           \<lparr>useful = False,
            reason = ''Pre-auth validation: all topics return "'' @ strToString allowedCode
                     @ ''" (auth not checked)''\<rparr>
         else
           \<lparr>useful = False,
            reason = ''Denied topic returned '' @ numToString (status (denied mutation)) @ '' ''
                     @ strToString deniedCode @ '', expected 403''\<rparr>)
      else if nonexistentCode = allowedCode
              \<and> status (nonexistent mutation) = status (allowed mutation) then
        \<lparr>useful = False,
         reason = ''Pre-auth validation: nonexistent also returns "'' @ strToString allowedCode
                  @ ''"''\<rparr>
      else if (status (nonexistent mutation) = 403 \<or> status (nonexistent mutation) = 404)
              \<and> status (allowed mutation) \<ge> 400 \<and> status (allowed mutation) < 500
              \<and> status (allowed mutation) \<noteq> 403 then
        \<lparr>useful = True,
         reason = ''Safe probe: auth passed then "'' @ strToString allowedCode
                  @ ''" (denied=403, nonexistent='' @ numToString (status (nonexistent mutation))
                  @ '')''\<rparr>
      else if status (allowed mutation) = 200 then
        \<lparr>useful = False,
         reason = ''Allowed returned 200 but mutation not in safe probe list''\<rparr>
      else
        \<lparr>useful = False,
         reason = ''Inconclusive: allowed='' @ numToString (status (allowed mutation))
                  @ '' denied='' @ numToString (status (denied mutation))
                  @ '' nonexistent='' @ numToString (status (nonexistent mutation))\<rparr>)\<close>

text \<open>The helper of the unit tests: a result with a status and an optional error code.\<close>

definition topicResult :: "int \<Rightarrow> string option \<Rightarrow> TopicResult" where
  "topicResult st c =
     \<lparr>status = st, error = c,
      errorDetails = (if truthy c then Some \<lparr>type = None, code = c, message = None\<rparr> else None)\<rparr>"


section \<open>Errors\<close>

text \<open>
  What the code throws, as a value: an \<^verbatim>\<open>ArnParseError\<close> or a plain \<^verbatim>\<open>Error\<close> with
  its message, or the rejection of \<^verbatim>\<open>fetch\<close> inside \<^verbatim>\<open>sendRequest\<close>.
\<close>

datatype error = ArnParseError string | Error string | FetchRejected string


section \<open>ARNs (utils/arn.ts)\<close>

text \<open>
  \<^verbatim>\<open>s.split(c)\<close> for a one-character separator, and \<^verbatim>\<open>parts.join(c)\<close>. In
  \<^verbatim>\<open>parseArn\<close> the destructuring of the parts comes after the length test, so the final
  case of its \<open>case\<close> is never reached.
\<close>

fun split :: "char \<Rightarrow> string \<Rightarrow> string list" where
  "split c [] = [[]]"
| "split c (x # xs) =
     (if x = c then [] # split c xs
      else (case split c xs of [] \<Rightarrow> [[x]] | p # ps \<Rightarrow> (x # p) # ps))"

fun join :: "string \<Rightarrow> string list \<Rightarrow> string" where
  "join sep [] = []"
| "join sep [p] = p"
| "join sep (p # q # ps) = p @ sep @ join sep (q # ps)"

record ParsedArn =
  partition :: string
  service :: string
  region :: string
  accountId :: string
  resource :: string

definition parseArn :: "string \<Rightarrow> error + ParsedArn" where
  \<open>parseArn arn =
     (if arn = [] then Inl (ArnParseError ''ARN cannot be empty'')
      else
        let parts = split CHR '':'' arn in
        if length parts < 6 then
          Inl (ArnParseError
            (''Invalid ARN format: expected at least 6 colon-separated parts, got ''
              @ decimal (length parts)))
        else
          (case parts of
             prefix' # partition' # service' # region' # accountId' # resourceParts \<Rightarrow>
               if prefix' \<noteq> ''arn'' then
                 Inl (ArnParseError
                   (''Invalid ARN: must start with 'arn:', got '' @ [CHR 0x27] @ prefix'
                     @ '':'' @ [CHR 0x27]))
               else if partition' = [] then
                 Inl (ArnParseError ''Invalid ARN: partition cannot be empty'')
               else if service' = [] then
                 Inl (ArnParseError ''Invalid ARN: service cannot be empty'')
               else
                 Inr \<lparr>partition = partition', service = service', region = region',
                      accountId = accountId', resource = join '':'' resourceParts\<rparr>
           | _ \<Rightarrow> Inl (ArnParseError [])))\<close>

definition parseSnsTopicArn :: "string \<Rightarrow> error + ParsedArn" where
  \<open>parseSnsTopicArn arn =
     (case parseArn arn of
        Inl e \<Rightarrow> Inl e
      | Inr parsed \<Rightarrow>
          if service parsed \<noteq> ''sns'' then
            Inl (ArnParseError
              (''Invalid SNS ARN: service must be 'sns', got '' @ [CHR 0x27]
                @ service parsed @ [CHR 0x27]))
          else if region parsed = [] then
            Inl (ArnParseError ''Invalid SNS topic ARN: region cannot be empty'')
          else if accountId parsed = [] then
            Inl (ArnParseError ''Invalid SNS topic ARN: account ID cannot be empty'')
          else if resource parsed = [] then
            Inl (ArnParseError ''Invalid SNS topic ARN: topic name cannot be empty'')
          else Inr parsed)\<close>

definition getRegionFromArn :: "string \<Rightarrow> error + string" where
  "getRegionFromArn arn =
     (case parseSnsTopicArn arn of Inl e \<Rightarrow> Inl e | Inr parsed \<Rightarrow> Inr (region parsed))"

definition getEndpointForRegion :: "string \<Rightarrow> string" where
  "getEndpointForRegion rg = ''https://sns.'' @ rg @ ''.amazonaws.com''"

text \<open>
  \<^verbatim>\<open>generateNonexistentTopicArn\<close> (mutations/runner.ts). The value of \<^verbatim>\<open>randomUUID()\<close>
  is the first argument.
\<close>

definition generateNonexistentTopicArn :: "string \<Rightarrow> string \<Rightarrow> error + string" where
  "generateNonexistentTopicArn guid allowedTopicArn =
     (case parseArn allowedTopicArn of
        Inl e \<Rightarrow> Inl e
      | Inr parsed \<Rightarrow>
          Inr (''arn:'' @ partition parsed @ '':sns:'' @ region parsed @ '':''
               @ accountId parsed @ '':nonexistent-'' @ guid))"


section \<open>The action catalog (actions/)\<close>

type_synonym Params = "(string \<times> string) list"

text \<open>
  A \<^verbatim>\<open>Record<string, string>\<close> is the list of its own properties in the order of
  \<^verbatim>\<open>Object.keys\<close>, with pairwise distinct keys. \<^verbatim>\<open>params.K\<close> is \<^term>\<open>map_of params K\<close>,
  \<^verbatim>\<open>delete result[k]\<close> is \<^term>\<open>AList.delete k\<close>, and \<^verbatim>\<open>{...params, [k]: v}\<close> or
  \<^verbatim>\<open>result[k] = v\<close> is \<^term>\<open>AList.update k v\<close>: the value is replaced in place when the
  key exists, and the pair is appended otherwise (no key written by the code is an array
  index, which JavaScript would enumerate first).
\<close>

datatype ActionCategory = category_read | category_write

datatype ParameterName = TopicArn | ResourceArn | SubscriptionArn

fun parameterKey :: "ParameterName \<Rightarrow> string" where
  "parameterKey TopicArn = ''TopicArn''"
| "parameterKey ResourceArn = ''ResourceArn''"
| "parameterKey SubscriptionArn = ''SubscriptionArn''"

text \<open>
  \<^verbatim>\<open>utils/constants.ts\<close> is not among the sources; the value of \<^verbatim>\<open>SNS_API_VERSION\<close> is the
  one the unit tests and the README show.
\<close>

definition SNS_API_VERSION :: string where
  "SNS_API_VERSION = ''2010-03-31''"

record Action =
  name :: string
  category :: ActionCategory
  safe :: bool
  parameterName :: ParameterName
  buildParams :: "string \<Rightarrow> error + Params"

text \<open>\<^verbatim>\<open>Action.buildParams\<close> of the base class, used by the actions that do not override it.\<close>

definition baseBuildParams :: "string \<Rightarrow> ParameterName \<Rightarrow> string \<Rightarrow> error + Params" where
  "baseBuildParams nm pn topicArn =
     Inr [(''Action'', nm), (parameterKey pn, topicArn), (''Version'', SNS_API_VERSION)]"

definition GetTopicAttributes :: Action where
  "GetTopicAttributes =
     \<lparr>name = ''GetTopicAttributes'', category = category_read, safe = True, parameterName = TopicArn,
      buildParams = baseBuildParams ''GetTopicAttributes'' TopicArn\<rparr>"

definition GetDataProtectionPolicy :: Action where
  "GetDataProtectionPolicy =
     \<lparr>name = ''GetDataProtectionPolicy'', category = category_read, safe = True,
      parameterName = ResourceArn,
      buildParams = baseBuildParams ''GetDataProtectionPolicy'' ResourceArn\<rparr>"

definition ListSubscriptionsByTopic :: Action where
  "ListSubscriptionsByTopic =
     \<lparr>name = ''ListSubscriptionsByTopic'', category = category_read, safe = True,
      parameterName = TopicArn,
      buildParams = baseBuildParams ''ListSubscriptionsByTopic'' TopicArn\<rparr>"

definition ListTagsForResource :: Action where
  "ListTagsForResource =
     \<lparr>name = ''ListTagsForResource'', category = category_read, safe = True,
      parameterName = ResourceArn,
      buildParams = baseBuildParams ''ListTagsForResource'' ResourceArn\<rparr>"

definition Publish :: Action where
  "Publish =
     \<lparr>name = ''Publish'', category = category_write, safe = True, parameterName = TopicArn,
      buildParams = (\<lambda>topicArn.
        Inr [(''Action'', ''Publish''), (''TopicArn'', topicArn),
             (''Message'', ''sns-buster test message''), (''Version'', SNS_API_VERSION)])\<rparr>"

definition PublishBatch :: Action where
  "PublishBatch =
     \<lparr>name = ''PublishBatch'', category = category_write, safe = True, parameterName = TopicArn,
      buildParams = (\<lambda>topicArn.
        Inr [(''Action'', ''PublishBatch''), (''TopicArn'', topicArn),
             (''PublishBatchRequestEntries.member.1.Id'', ''msg1''),
             (''PublishBatchRequestEntries.member.1.Message'',
              ''sns-buster batch test message''),
             (''Version'', SNS_API_VERSION)])\<rparr>"

definition Subscribe :: Action where
  "Subscribe =
     \<lparr>name = ''Subscribe'', category = category_write, safe = True, parameterName = TopicArn,
      buildParams = (\<lambda>topicArn.
        Inr [(''Action'', ''Subscribe''), (''TopicArn'', topicArn), (''Protocol'', ''https''),
             (''Endpoint'', ''https://example.com/sns-buster-test''),
             (''Version'', SNS_API_VERSION)])\<rparr>"

definition TagResource :: Action where
  "TagResource =
     \<lparr>name = ''TagResource'', category = category_write, safe = True, parameterName = ResourceArn,
      buildParams = (\<lambda>topicArn.
        Inr [(''Action'', ''TagResource''), (''ResourceArn'', topicArn),
             (''Tags.member.1.Key'', ''sns-buster-test''), (''Tags.member.1.Value'', ''true''),
             (''Version'', SNS_API_VERSION)])\<rparr>"

definition UntagResource :: Action where
  "UntagResource =
     \<lparr>name = ''UntagResource'', category = category_write, safe = True, parameterName = ResourceArn,
      buildParams = (\<lambda>topicArn.
        Inr [(''Action'', ''UntagResource''), (''ResourceArn'', topicArn),
             (''TagKeys.member.1'', ''sns-buster-test''), (''Version'', SNS_API_VERSION)])\<rparr>"

definition AddPermission :: Action where
  "AddPermission =
     \<lparr>name = ''AddPermission'', category = category_write, safe = True, parameterName = TopicArn,
      buildParams = (\<lambda>topicArn.
        case parseArn topicArn of
          Inl e \<Rightarrow> Inl e
        | Inr parsed \<Rightarrow>
            Inr [(''Action'', ''AddPermission''), (''TopicArn'', topicArn),
                 (''Label'', ''sns-buster-test-noop''),
                 (''AWSAccountId.member.1'', accountId parsed),
                 (''ActionName.member.1'', ''GetTopicAttributes''),
                 (''Version'', SNS_API_VERSION)])\<rparr>"

definition RemovePermission :: Action where
  "RemovePermission =
     \<lparr>name = ''RemovePermission'', category = category_write, safe = False, parameterName = TopicArn,
      buildParams = (\<lambda>topicArn.
        Inr [(''Action'', ''RemovePermission''), (''TopicArn'', topicArn),
             (''Label'', ''sns-buster-test-noop''), (''Version'', SNS_API_VERSION)])\<rparr>"

definition SetTopicAttributes :: Action where
  "SetTopicAttributes =
     \<lparr>name = ''SetTopicAttributes'', category = category_write, safe = False, parameterName = TopicArn,
      buildParams = (\<lambda>topicArn.
        Inr [(''Action'', ''SetTopicAttributes''), (''TopicArn'', topicArn),
             (''AttributeName'', ''SignatureVersion''), (''AttributeValue'', ''1''),
             (''Version'', SNS_API_VERSION)])\<rparr>"

text \<open>The policy document is the output of \<^verbatim>\<open>JSON.stringify\<close> on the object literal.\<close>

definition PutDataProtectionPolicy :: Action where
  \<open>PutDataProtectionPolicy =
     \<lparr>name = ''PutDataProtectionPolicy'', category = category_write, safe = False,
      parameterName = ResourceArn,
      buildParams = (\<lambda>topicArn.
        Inr [(''Action'', ''PutDataProtectionPolicy''), (''ResourceArn'', topicArn),
             (''DataProtectionPolicy'',
              ''{"Name":"sns-buster-test-policy","Description":"Test policy from sns-buster",''
              @ ''"Version":"2021-06-01","Statement":[{"Sid":"sns-buster-audit",''
              @ ''"DataDirection":"Inbound","Principal":["*"],"DataIdentifier":''
              @ ''["arn:aws:dataprotection::aws:data-identifier/CreditCardNumber"],''
              @ ''"Operation":{"Audit":{"SampleRate":"99","FindingsDestination":{}}}}]}''),
             (''Version'', SNS_API_VERSION)])\<rparr>\<close>

definition DeleteTopic :: Action where
  "DeleteTopic =
     \<lparr>name = ''DeleteTopic'', category = category_write, safe = False, parameterName = TopicArn,
      buildParams = baseBuildParams ''DeleteTopic'' TopicArn\<rparr>"

definition ALL_ACTIONS :: "Action list" where
  "ALL_ACTIONS =
     [GetTopicAttributes, GetDataProtectionPolicy, ListSubscriptionsByTopic,
      ListTagsForResource,
      Publish, PublishBatch, Subscribe, TagResource, UntagResource, AddPermission,
      RemovePermission,
      SetTopicAttributes, PutDataProtectionPolicy,
      DeleteTopic]"

definition getReadActions :: "Action list" where
  "getReadActions = filter (\<lambda>action. category action = category_read) ALL_ACTIONS"

definition getSafeActions :: "Action list" where
  "getSafeActions = filter (\<lambda>action. safe action) ALL_ACTIONS"

definition getAllActions :: "Action list" where
  "getAllActions = ALL_ACTIONS"

datatype Mode = mode_read | mode_safe | mode_all

fun getActionsByMode :: "Mode \<Rightarrow> Action list" where
  "getActionsByMode mode_read = getReadActions"
| "getActionsByMode mode_safe = getSafeActions"
| "getActionsByMode mode_all = getAllActions"

text \<open>
  The ordering property of claim C9, as a test on a list of action names: every occurrence
  of the grant is directly followed by the revocation.
\<close>

fun immediatelyFollowedBy :: "string \<Rightarrow> string \<Rightarrow> string list \<Rightarrow> bool" where
  "immediatelyFollowedBy g r [] = True"
| "immediatelyFollowedBy g r [x] = (x \<noteq> g)"
| "immediatelyFollowedBy g r (x # y # zs) =
     ((x = g \<longrightarrow> y = r) \<and> immediatelyFollowedBy g r (y # zs))"


section \<open>The mutation catalog (mutations/strategies.ts)\<close>

subsection \<open>Tests on keys\<close>

text \<open>
  The regular expressions of the catalog all have the shape \<^verbatim>\<open>/before\d+after/\<close> or
  \<^verbatim>\<open>/before\d+after$/\<close>, with literal text \<^verbatim>\<open>before\<close> and \<^verbatim>\<open>after\<close>. The text after the
  digits is empty or starts with a dot, so a match takes the longest run of digits.
\<close>

record Pattern =
  before :: string
  after :: string
  atEnd :: bool

definition isDigit :: "char \<Rightarrow> bool" where
  "isDigit c = (c \<in> set ''0123456789'')"

fun stripPrefix :: "string \<Rightarrow> string \<Rightarrow> string option" where
  "stripPrefix [] s = Some s"
| "stripPrefix (p # ps) [] = None"
| "stripPrefix (p # ps) (c # cs) = (if p = c then stripPrefix ps cs else None)"

text \<open>\<^verbatim>\<open>k.startsWith(lit)\<close>\<close>

definition startsWith :: "string \<Rightarrow> string \<Rightarrow> bool" where
  "startsWith k lit = (stripPrefix lit k \<noteq> None)"

text \<open>The length of the match of the pattern at the start of the string, if there is one.\<close>

definition matchAt :: "Pattern \<Rightarrow> string \<Rightarrow> nat option" where
  "matchAt pat s =
     (case stripPrefix (before pat) s of
        None \<Rightarrow> None
      | Some r \<Rightarrow>
          let ds = takeWhile isDigit r; r' = dropWhile isDigit r in
          if ds = [] then None
          else (case stripPrefix (after pat) r' of
                  None \<Rightarrow> None
                | Some r'' \<Rightarrow>
                    if atEnd pat \<and> r'' \<noteq> [] then None
                    else Some (length (before pat) + length ds + length (after pat))))"

text \<open>\<^verbatim>\<open>k.match(re)\<close> is not null: the pattern matches at some position.\<close>

fun matches :: "Pattern \<Rightarrow> string \<Rightarrow> bool" where
  "matches pat [] = (matchAt pat [] \<noteq> None)"
| "matches pat (c # cs) = (matchAt pat (c # cs) \<noteq> None \<or> matches pat cs)"

text \<open>\<^verbatim>\<open>k.replace(re, repl)\<close>: the leftmost match is replaced.\<close>

fun replace :: "Pattern \<Rightarrow> string \<Rightarrow> string \<Rightarrow> string" where
  "replace pat repl [] = (case matchAt pat [] of None \<Rightarrow> [] | Some n \<Rightarrow> repl)"
| "replace pat repl (c # cs) =
     (case matchAt pat (c # cs) of
        None \<Rightarrow> c # replace pat repl cs
      | Some n \<Rightarrow> repl @ drop n (c # cs))"

definition batchMessageKey :: Pattern where
  "batchMessageKey =
     \<lparr>before = ''PublishBatchRequestEntries.member.'', after = ''.Message'', atEnd = False\<rparr>"

definition batchIdKey :: Pattern where
  "batchIdKey =
     \<lparr>before = ''PublishBatchRequestEntries.member.'', after = ''.Id'', atEnd = True\<rparr>"

definition tagKeyKey :: Pattern where
  "tagKeyKey = \<lparr>before = ''Tags.member.'', after = ''.Key'', atEnd = False\<rparr>"

definition tagValueKey :: Pattern where
  "tagValueKey = \<lparr>before = ''Tags.member.'', after = ''.Value'', atEnd = False\<rparr>"

definition tagMemberKey :: Pattern where
  "tagMemberKey = \<lparr>before = ''Tags.member.'', after = ''.'', atEnd = False\<rparr>"

definition tagKeysMemberKey :: Pattern where
  "tagKeysMemberKey = \<lparr>before = ''TagKeys.member.'', after = [], atEnd = False\<rparr>"

subsection \<open>The mutations\<close>

record Mutation =
  name :: string
  description :: string
  "apply" :: "Params \<Rightarrow> string \<Rightarrow> Params"

text \<open>
  A guard \<^verbatim>\<open>if (!key) return params\<close> after \<^verbatim>\<open>find\<close> is the \<open>None\<close> case: a key that
  \<^verbatim>\<open>find\<close> returns satisfies the test and so is not the empty string.
\<close>

definition removeAction :: Mutation where
  "removeAction =
     \<lparr>name = ''remove-action'', description = ''Remove Action parameter'',
      apply = (\<lambda>params topicArn. AList.delete ''Action'' params)\<rparr>"

definition removeVersion :: Mutation where
  "removeVersion =
     \<lparr>name = ''remove-version'', description = ''Remove Version parameter'',
      apply = (\<lambda>params topicArn. AList.delete ''Version'' params)\<rparr>"

definition endpointToArn :: Mutation where
  "endpointToArn =
     \<lparr>name = ''endpoint-to-arn'', description = ''Change Endpoint parameter to ARN format'',
      apply = (\<lambda>params topicArn.
        if \<not> truthy (map_of params ''Endpoint'') then params
        else AList.update ''Endpoint'' topicArn params)\<rparr>"

definition removeMessage :: Mutation where
  "removeMessage =
     \<lparr>name = ''remove-message'', description = ''Remove Message parameter'',
      apply = (\<lambda>params topicArn.
        if map_of params ''Message'' = None then params
        else AList.delete ''Message'' params)\<rparr>"

definition emptyMessage :: Mutation where
  "emptyMessage =
     \<lparr>name = ''empty-message'', description = ''Set Message to empty string'',
      apply = (\<lambda>params topicArn.
        if map_of params ''Message'' = None then params
        else AList.update ''Message'' [] params)\<rparr>"

definition removeBatchMessage :: Mutation where
  "removeBatchMessage =
     \<lparr>name = ''remove-batch-message'', description = ''Remove Message from batch entry'',
      apply = (\<lambda>params topicArn.
        case find (matches batchMessageKey) (map fst params) of
          None \<Rightarrow> params
        | Some msgKey \<Rightarrow> AList.delete msgKey params)\<rparr>"

definition emptyBatchMessage :: Mutation where
  "emptyBatchMessage =
     \<lparr>name = ''empty-batch-message'',
      description = ''Set batch entry Message to empty string'',
      apply = (\<lambda>params topicArn.
        case find (matches batchMessageKey) (map fst params) of
          None \<Rightarrow> params
        | Some msgKey \<Rightarrow> AList.update msgKey [] params)\<rparr>"

definition removeBatchId :: Mutation where
  "removeBatchId =
     \<lparr>name = ''remove-batch-id'', description = ''Remove Id from batch entry'',
      apply = (\<lambda>params topicArn.
        case find (matches batchIdKey) (map fst params) of
          None \<Rightarrow> params
        | Some idKey \<Rightarrow> AList.delete idKey params)\<rparr>"

definition emptyBatchId :: Mutation where
  "emptyBatchId =
     \<lparr>name = ''empty-batch-id'', description = ''Set batch entry Id to empty string'',
      apply = (\<lambda>params topicArn.
        case find (matches batchIdKey) (map fst params) of
          None \<Rightarrow> params
        | Some idKey \<Rightarrow> AList.update idKey [] params)\<rparr>"

definition invalidActionName :: Mutation where
  "invalidActionName =
     \<lparr>name = ''invalid-action-name'',
      description = ''Use invalid action name in ActionName parameter'',
      apply = (\<lambda>params topicArn.
        case find (\<lambda>k. startsWith k ''ActionName.member.'') (map fst params) of
          None \<Rightarrow> params
        | Some actionKey \<Rightarrow> AList.update actionKey ''NotARealAction'' params)\<rparr>"

definition removeActionName :: Mutation where
  "removeActionName =
     \<lparr>name = ''remove-action-name'', description = ''Remove ActionName parameter'',
      apply = (\<lambda>params topicArn.
        let actionKeys = filter (\<lambda>k. startsWith k ''ActionName.member.'') (map fst params) in
        if length actionKeys = 0 then params
        else fold AList.delete actionKeys params)\<rparr>"

definition invalidLabel :: Mutation where
  "invalidLabel =
     \<lparr>name = ''invalid-label'', description = ''Use non-existent permission label'',
      apply = (\<lambda>params topicArn.
        if map_of params ''Label'' = None then params
        else AList.update ''Label'' ''non-existent-permission-label-12345'' params)\<rparr>"

definition emptyLabel :: Mutation where
  "emptyLabel =
     \<lparr>name = ''empty-label'', description = ''Set Label to empty string'',
      apply = (\<lambda>params topicArn.
        if map_of params ''Label'' = None then params
        else AList.update ''Label'' [] params)\<rparr>"

definition removeLabel :: Mutation where
  "removeLabel =
     \<lparr>name = ''remove-label'', description = ''Remove Label parameter'',
      apply = (\<lambda>params topicArn.
        if map_of params ''Label'' = None then params
        else AList.delete ''Label'' params)\<rparr>"

definition specialCharLabel :: Mutation where
  "specialCharLabel =
     \<lparr>name = ''special-char-label'', description = ''Set Label with special characters'',
      apply = (\<lambda>params topicArn.
        if map_of params ''Label'' = None then params
        else AList.update ''Label'' ''../../../etc/passwd'' params)\<rparr>"

definition invalidAttributeName :: Mutation where
  "invalidAttributeName =
     \<lparr>name = ''invalid-attribute-name'', description = ''Use invalid AttributeName'',
      apply = (\<lambda>params topicArn.
        if map_of params ''AttributeName'' = None then params
        else AList.update ''AttributeName'' ''NotARealAttribute'' params)\<rparr>"

definition removeAttributeName :: Mutation where
  "removeAttributeName =
     \<lparr>name = ''remove-attribute-name'', description = ''Remove AttributeName parameter'',
      apply = (\<lambda>params topicArn.
        if map_of params ''AttributeName'' = None then params
        else AList.delete ''AttributeName'' params)\<rparr>"

definition emptyTagKey :: Mutation where
  "emptyTagKey =
     \<lparr>name = ''empty-tag-key'', description = ''Set tag key to empty string'',
      apply = (\<lambda>params topicArn.
        case find (matches tagKeyKey) (map fst params) of
          None \<Rightarrow> params
        | Some tagKeyParam \<Rightarrow> AList.update tagKeyParam [] params)\<rparr>"

definition removeTagKey :: Mutation where
  "removeTagKey =
     \<lparr>name = ''remove-tag-key'', description = ''Remove tag key parameter'',
      apply = (\<lambda>params topicArn.
        let tagKeyParams = filter (matches tagKeyKey) (map fst params) in
        if length tagKeyParams = 0 then params
        else fold AList.delete tagKeyParams params)\<rparr>"

definition nonExistentTag :: Mutation where
  "nonExistentTag =
     \<lparr>name = ''nonexistent-tag'',
      description = ''Set Tags.member.*.Key to a non-existent GUID-like key'',
      apply = (\<lambda>params topicArn.
        case find (matches tagKeyKey) (map fst params) of
          None \<Rightarrow> params
        | Some tagKeyParam \<Rightarrow>
            AList.update tagKeyParam ''nonexistent-key-a1b2c3d4-e5f6-7890-abcd-ef1234567890''
              params)\<rparr>"

definition removeTags :: Mutation where
  "removeTags =
     \<lparr>name = ''remove-tags'', description = ''Remove all Tags.member.* params'',
      apply = (\<lambda>params topicArn.
        let tagParams = filter (\<lambda>k. startsWith k ''Tags.member.'') (map fst params) in
        if length tagParams = 0 then params
        else fold AList.delete tagParams params)\<rparr>"

text \<open>
  The loop body of the two zero-index mutations: \<^verbatim>\<open>result[newKey] = result[k]\<close>, then
  \<^verbatim>\<open>delete result[k]\<close>. Every key of the loop is a key of \<^verbatim>\<open>result\<close> when its turn
  comes (an iteration deletes its own key only), so the \<open>None\<close> case is not reached on
  a list with distinct keys.
\<close>

definition renameKey :: "Pattern \<Rightarrow> string \<Rightarrow> string \<Rightarrow> Params \<Rightarrow> Params" where
  "renameKey pat repl k result =
     (let newKey = replace pat repl k in
      AList.delete k
        (case map_of result k of
           None \<Rightarrow> result
         | Some v \<Rightarrow> AList.update newKey v result))"

definition zeroIndexTag :: Mutation where
  "zeroIndexTag =
     \<lparr>name = ''zero-index-tag'', description = ''Use Tags.member.0 instead of member.1'',
      apply = (\<lambda>params topicArn.
        let tagParams = filter (matches tagMemberKey) (map fst params) in
        if length tagParams = 0 then params
        else fold (renameKey tagMemberKey ''Tags.member.0.'') tagParams params)\<rparr>"

definition removeTagValue :: Mutation where
  "removeTagValue =
     \<lparr>name = ''remove-tag-value'',
      description = ''Remove Tags.member.*.Value param (keep Key)'',
      apply = (\<lambda>params topicArn.
        let tagValueParams = filter (matches tagValueKey) (map fst params) in
        if length tagValueParams = 0 then params
        else fold AList.delete tagValueParams params)\<rparr>"

definition removeTagKeys :: Mutation where
  "removeTagKeys =
     \<lparr>name = ''remove-tag-keys'', description = ''Remove TagKeys parameter'',
      apply = (\<lambda>params topicArn.
        let tagKeysParams = filter (\<lambda>k. startsWith k ''TagKeys.member.'') (map fst params) in
        if length tagKeysParams = 0 then params
        else fold AList.delete tagKeysParams params)\<rparr>"

definition emptyTagKeys :: Mutation where
  "emptyTagKeys =
     \<lparr>name = ''empty-tag-keys'', description = ''Set TagKeys.member.1 to empty string'',
      apply = (\<lambda>params topicArn.
        case find (\<lambda>k. startsWith k ''TagKeys.member.'') (map fst params) of
          None \<Rightarrow> params
        | Some tagKeysParam \<Rightarrow> AList.update tagKeysParam [] params)\<rparr>"

definition nonExistentTagKey :: Mutation where
  "nonExistentTagKey =
     \<lparr>name = ''nonexistent-tag-key'',
      description = ''Set TagKeys to a non-existent GUID-like key'',
      apply = (\<lambda>params topicArn.
        case find (\<lambda>k. startsWith k ''TagKeys.member.'') (map fst params) of
          None \<Rightarrow> params
        | Some tagKeysParam \<Rightarrow>
            AList.update tagKeysParam ''nonexistent-key-a1b2c3d4-e5f6-7890-abcd-ef1234567890''
              params)\<rparr>"

definition longTagKeys :: Mutation where
  "longTagKeys =
     \<lparr>name = ''long-tag-keys'',
      description = ''Set TagKeys.member.* to exceed max length (128)'',
      apply = (\<lambda>params topicArn.
        case find (\<lambda>k. startsWith k ''TagKeys.member.'') (map fst params) of
          None \<Rightarrow> params
        | Some tagKeysParam \<Rightarrow> AList.update tagKeysParam (replicate 200 CHR ''x'') params)\<rparr>"

definition zeroIndexTagKey :: Mutation where
  "zeroIndexTagKey =
     \<lparr>name = ''zero-index-tag-key'',
      description = ''Use TagKeys.member.0 instead of member.1'',
      apply = (\<lambda>params topicArn.
        let tagKeysParams = filter (matches tagKeysMemberKey) (map fst params) in
        if length tagKeysParams = 0 then params
        else fold (renameKey tagKeysMemberKey ''TagKeys.member.0'') tagKeysParams params)\<rparr>"

definition invalidProtocol :: Mutation where
  "invalidProtocol =
     \<lparr>name = ''invalid-protocol'', description = ''Use invalid Protocol value'',
      apply = (\<lambda>params topicArn.
        if map_of params ''Protocol'' = None then params
        else AList.update ''Protocol'' ''not-a-protocol'' params)\<rparr>"

definition removeProtocol :: Mutation where
  "removeProtocol =
     \<lparr>name = ''remove-protocol'', description = ''Remove Protocol parameter'',
      apply = (\<lambda>params topicArn.
        if map_of params ''Protocol'' = None then params
        else AList.delete ''Protocol'' params)\<rparr>"

definition invalidJsonPolicy :: Mutation where
  "invalidJsonPolicy =
     \<lparr>name = ''invalid-json-policy'',
      description = ''Set DataProtectionPolicy to invalid JSON'',
      apply = (\<lambda>params topicArn.
        if map_of params ''DataProtectionPolicy'' = None then params
        else AList.update ''DataProtectionPolicy'' ''{not valid json'' params)\<rparr>"

definition emptyJsonPolicy :: Mutation where
  "emptyJsonPolicy =
     \<lparr>name = ''empty-json-policy'',
      description = ''Set DataProtectionPolicy to empty JSON object'',
      apply = (\<lambda>params topicArn.
        if map_of params ''DataProtectionPolicy'' = None then params
        else AList.update ''DataProtectionPolicy'' ''{}'' params)\<rparr>"

definition invalidPolicyStructure :: Mutation where
  \<open>invalidPolicyStructure =
     \<lparr>name = ''invalid-policy-structure'',
      description = ''Set DataProtectionPolicy to valid JSON with invalid structure'',
      apply = (\<lambda>params topicArn.
        if map_of params ''DataProtectionPolicy'' = None then params
        else AList.update ''DataProtectionPolicy'' ''{"invalid":"structure","foo":"bar"}''
               params)\<rparr>\<close>

definition removeDataProtectionPolicy :: Mutation where
  "removeDataProtectionPolicy =
     \<lparr>name = ''remove-data-protection-policy'',
      description = ''Remove DataProtectionPolicy parameter'',
      apply = (\<lambda>params topicArn.
        if map_of params ''DataProtectionPolicy'' = None then params
        else AList.delete ''DataProtectionPolicy'' params)\<rparr>"

definition LONG_STRING_200 :: string where
  "LONG_STRING_200 = replicate 200 CHR ''x''"

definition LONG_STRING_500 :: string where
  "LONG_STRING_500 = replicate 500 CHR ''x''"

definition LONG_STRING_1000 :: string where
  "LONG_STRING_1000 = replicate 1000 CHR ''x''"

definition longTagKey :: Mutation where
  "longTagKey =
     \<lparr>name = ''long-tag-key'', description = ''Set tag key to exceed max length (128)'',
      apply = (\<lambda>params topicArn.
        case find (matches tagKeyKey) (map fst params) of
          None \<Rightarrow> params
        | Some tagKeyParam \<Rightarrow> AList.update tagKeyParam LONG_STRING_200 params)\<rparr>"

definition longTagValue :: Mutation where
  "longTagValue =
     \<lparr>name = ''long-tag-value'', description = ''Set tag value to exceed max length (256)'',
      apply = (\<lambda>params topicArn.
        case find (matches tagValueKey) (map fst params) of
          None \<Rightarrow> params
        | Some tagValueParam \<Rightarrow> AList.update tagValueParam LONG_STRING_500 params)\<rparr>"

definition longLabel :: Mutation where
  "longLabel =
     \<lparr>name = ''long-label'', description = ''Set Label to exceed reasonable length'',
      apply = (\<lambda>params topicArn.
        if map_of params ''Label'' = None then params
        else AList.update ''Label'' LONG_STRING_200 params)\<rparr>"

definition longAttributeValue :: Mutation where
  "longAttributeValue =
     \<lparr>name = ''long-attribute-value'',
      description = ''Set AttributeValue to very long string'',
      apply = (\<lambda>params topicArn.
        if map_of params ''AttributeValue'' = None then params
        else AList.update ''AttributeValue'' LONG_STRING_1000 params)\<rparr>"

definition invalidSignatureVersion :: Mutation where
  "invalidSignatureVersion =
     \<lparr>name = ''invalid-signature-version'',
      description = ''Set SignatureVersion to invalid value (99)'',
      apply = (\<lambda>params topicArn.
        if map_of params ''AttributeName'' \<noteq> Some ''SignatureVersion'' then params
        else AList.update ''AttributeValue'' ''99'' params)\<rparr>"

definition longEndpoint :: Mutation where
  "longEndpoint =
     \<lparr>name = ''long-endpoint'', description = ''Set Endpoint to very long URL'',
      apply = (\<lambda>params topicArn.
        if map_of params ''Endpoint'' = None then params
        else AList.update ''Endpoint'' (''https://example.com/'' @ replicate 2000 CHR ''x'')
               params)\<rparr>"

definition longSubject :: Mutation where
  "longSubject =
     \<lparr>name = ''long-subject'',
      description = ''Add Subject parameter exceeding max length (100)'',
      apply = (\<lambda>params topicArn.
        if map_of params ''Action'' \<noteq> Some ''Publish'' then params
        else AList.update ''Subject'' LONG_STRING_200 params)\<rparr>"

definition defaultMutations :: "Mutation list" where
  "defaultMutations = [removeAction, removeVersion]"

definition parameterMutations :: "Mutation list" where
  "parameterMutations =
     [removeMessage, emptyMessage,
      removeBatchMessage, emptyBatchMessage, removeBatchId, emptyBatchId,
      endpointToArn, longEndpoint,
      invalidProtocol, removeProtocol,
      invalidActionName, removeActionName,
      invalidLabel, emptyLabel, removeLabel, specialCharLabel, longLabel,
      invalidAttributeName, removeAttributeName, longAttributeValue, invalidSignatureVersion,
      nonExistentTag, removeTags, emptyTagKey, longTagKey, zeroIndexTag, removeTagKey,
      removeTagValue, longTagValue,
      nonExistentTagKey, removeTagKeys, emptyTagKeys, longTagKeys, zeroIndexTagKey,
      longSubject,
      invalidJsonPolicy, emptyJsonPolicy, invalidPolicyStructure,
      removeDataProtectionPolicy]"

definition getMutationsForAction :: "string \<Rightarrow> Mutation list" where
  "getMutationsForAction actionName = defaultMutations @ parameterMutations"

subsection \<open>The change detector\<close>

definition didMutationChangeParams :: "Params \<Rightarrow> Params \<Rightarrow> bool" where
  "didMutationChangeParams original mutated =
     (let origKeys = sort (map fst original);
          mutKeys = sort (map fst mutated)
      in
      if length origKeys \<noteq> length mutKeys then True
      else if join '','' origKeys \<noteq> join '','' mutKeys then True
      else list_ex (\<lambda>key. map_of original key \<noteq> map_of mutated key) origKeys)"

subsection \<open>The precondition parameter of each mutation\<close>

text \<open>
  For claim C6: each mutation of the catalog with the test that says which keys are its
  precondition parameter, read off the guard at the start of its \<^verbatim>\<open>apply\<close> (for the two
  structural mutations, the key they delete). The parameter is absent from a parameter
  list when no key of the list passes the test.
\<close>

definition mutationPreconditions :: "(Mutation \<times> (string \<Rightarrow> bool)) list" where
  "mutationPreconditions =
     [(removeAction, \<lambda>k. k = ''Action''),
      (removeVersion, \<lambda>k. k = ''Version''),
      (removeMessage, \<lambda>k. k = ''Message''),
      (emptyMessage, \<lambda>k. k = ''Message''),
      (removeBatchMessage, matches batchMessageKey),
      (emptyBatchMessage, matches batchMessageKey),
      (removeBatchId, matches batchIdKey),
      (emptyBatchId, matches batchIdKey),
      (endpointToArn, \<lambda>k. k = ''Endpoint''),
      (longEndpoint, \<lambda>k. k = ''Endpoint''),
      (invalidProtocol, \<lambda>k. k = ''Protocol''),
      (removeProtocol, \<lambda>k. k = ''Protocol''),
      (invalidActionName, \<lambda>k. startsWith k ''ActionName.member.''),
      (removeActionName, \<lambda>k. startsWith k ''ActionName.member.''),
      (invalidLabel, \<lambda>k. k = ''Label''),
      (emptyLabel, \<lambda>k. k = ''Label''),
      (removeLabel, \<lambda>k. k = ''Label''),
      (specialCharLabel, \<lambda>k. k = ''Label''),
      (longLabel, \<lambda>k. k = ''Label''),
      (invalidAttributeName, \<lambda>k. k = ''AttributeName''),
      (removeAttributeName, \<lambda>k. k = ''AttributeName''),
      (longAttributeValue, \<lambda>k. k = ''AttributeValue''),
      (invalidSignatureVersion, \<lambda>k. k = ''AttributeName''),
      (nonExistentTag, matches tagKeyKey),
      (removeTags, \<lambda>k. startsWith k ''Tags.member.''),
      (emptyTagKey, matches tagKeyKey),
      (longTagKey, matches tagKeyKey),
      (zeroIndexTag, matches tagMemberKey),
      (removeTagKey, matches tagKeyKey),
      (removeTagValue, matches tagValueKey),
      (longTagValue, matches tagValueKey),
      (nonExistentTagKey, \<lambda>k. startsWith k ''TagKeys.member.''),
      (removeTagKeys, \<lambda>k. startsWith k ''TagKeys.member.''),
      (emptyTagKeys, \<lambda>k. startsWith k ''TagKeys.member.''),
      (longTagKeys, \<lambda>k. startsWith k ''TagKeys.member.''),
      (zeroIndexTagKey, matches tagKeysMemberKey),
      (longSubject, \<lambda>k. k = ''Action''),
      (invalidJsonPolicy, \<lambda>k. k = ''DataProtectionPolicy''),
      (emptyJsonPolicy, \<lambda>k. k = ''DataProtectionPolicy''),
      (invalidPolicyStructure, \<lambda>k. k = ''DataProtectionPolicy''),
      (removeDataProtectionPolicy, \<lambda>k. k = ''DataProtectionPolicy'')]"

definition parameterAbsent :: "(string \<Rightarrow> bool) \<Rightarrow> Params \<Rightarrow> bool" where
  "parameterAbsent isKey params = (\<not> list_ex isKey (map fst params))"


section \<open>The differential prober (mutations/runner.ts)\<close>

subsection \<open>Requests, responses and the transport\<close>

text \<open>
  \<^verbatim>\<open>sendSignedRequest(endpoint, params, region, credentials)\<close> builds a POST request to the
  endpoint with the parameters as its body, signs it for the region and passes it to
  \<^verbatim>\<open>sendRequest\<close>, which awaits \<^verbatim>\<open>fetch\<close>. Signing is not modelled: a request is the
  endpoint, the parameters and the signing region. The network is a parameter of the model:
  a function that, given the requests answered so far and the next request, either rejects
  (\<^verbatim>\<open>fetch\<close> throws) or gives the response. The state threaded through the prober is the
  list of the requests that were answered. The log files and the reproduce scripts that
  the prober writes are not modelled.
\<close>

record SentRequest =
  url :: string
  bodyParams :: Params
  signingRegion :: string

record HttpResponse =
  httpStatus :: int
  statusText :: string
  headers :: Params
  body :: string

type_synonym Transport = "SentRequest list \<Rightarrow> SentRequest \<Rightarrow> error + HttpResponse"

definition sendSignedRequest ::
  "Transport \<Rightarrow> SentRequest list \<Rightarrow> string \<Rightarrow> Params \<Rightarrow> string
   \<Rightarrow> error + (HttpResponse \<times> SentRequest list)" where
  "sendSignedRequest transport sent endpoint ps rg =
     (let request = \<lparr>url = endpoint, bodyParams = ps, signingRegion = rg\<rparr> in
      case transport sent request of
        Inl e \<Rightarrow> Inl e
      | Inr response \<Rightarrow> Inr (response, sent @ [request]))"

subsection \<open>Reading a response (output/summary.ts)\<close>

text \<open>
  \<^verbatim>\<open>body.match(/<Tag>([^<]+)<\/Tag>/)\<close>: the first place where the opening tag is followed
  by one or more characters other than \<^verbatim>\<open><\<close> and then the closing tag; the result is the
  captured text.
\<close>

definition captureAt :: "string \<Rightarrow> string \<Rightarrow> string \<Rightarrow> string option" where
  "captureAt opening closing s =
     (case stripPrefix opening s of
        None \<Rightarrow> None
      | Some r \<Rightarrow>
          let v = takeWhile (\<lambda>c. c \<noteq> CHR ''<'') r;
              r' = dropWhile (\<lambda>c. c \<noteq> CHR ''<'') r
          in if v = [] then None
             else (case stripPrefix closing r' of None \<Rightarrow> None | Some r'' \<Rightarrow> Some v))"

fun capture :: "string \<Rightarrow> string \<Rightarrow> string \<Rightarrow> string option" where
  "capture opening closing [] = captureAt opening closing []"
| "capture opening closing (c # cs) =
     (case captureAt opening closing (c # cs) of
        Some v \<Rightarrow> Some v
      | None \<Rightarrow> capture opening closing cs)"

definition parseErrorDetails :: "string \<Rightarrow> ErrorDetails" where
  "parseErrorDetails responseBody =
     \<lparr>type = capture ''<Type>'' ''</Type>'' responseBody,
      code = capture ''<Code>'' ''</Code>'' responseBody,
      message = capture ''<Message>'' ''</Message>'' responseBody\<rparr>"

definition isSuccessStatus :: "int \<Rightarrow> bool" where
  "isSuccessStatus st = (st \<ge> 200 \<and> st < 300)"

definition buildTopicResult :: "HttpResponse \<Rightarrow> TopicResult" where
  "buildTopicResult response =
     (let st = httpStatus response;
          isSuccess = isSuccessStatus st;
          details = (if isSuccess then None else Some (parseErrorDetails (body response)))
      in \<lparr>status = st,
          error = (case details of None \<Rightarrow> None | Some d \<Rightarrow> code d),
          errorDetails = details\<rparr>)"

subsection \<open>Results\<close>

record MutationTestResult = Topics +
  mutationName :: string
  mutationDescription :: string
  mutationUseful :: bool
  mutationReason :: "string option"

record ActionMutationResult =
  action :: string
  baseline :: Topics
  mutations :: "MutationTestResult list"
  usefulMutations :: "MutationTestResult list"

record TopicArns =
  allowedTopicArn :: string
  deniedTopicArn :: string
  nonexistentTopicArn :: string

record MutationTestContext = TopicArns +
  allowedRegion :: string
  deniedRegion :: string
  nonexistentRegion :: string
  allowedEndpoint :: string
  deniedEndpoint :: string
  nonexistentEndpoint :: string

record Summary =
  totalActions :: nat
  totalMutationsTested :: nat
  usefulMutationsFound :: nat

record RequestMutationsResult = TopicArns +
  mode :: Mode
  actions :: "ActionMutationResult list"
  summary :: Summary

subsection \<open>Testing the mutations of one action\<close>

text \<open>
  One iteration of the loop over the mutations in \<^verbatim>\<open>testActionMutations\<close>. The state is
  the two result lists and the requests answered so far. An error is the exception that
  leaves the loop: nothing in the loop, in \<^verbatim>\<open>testActionMutations\<close> or in
  \<^verbatim>\<open>runRequestMutations\<close> catches it.
\<close>

type_synonym ProbeState = "MutationTestResult list \<times> MutationTestResult list \<times> SentRequest list"

definition testMutation ::
  "Transport \<Rightarrow> Action \<Rightarrow> MutationTestContext \<Rightarrow> Params \<Rightarrow> Params \<Rightarrow> Params
   \<Rightarrow> Mutation \<Rightarrow> ProbeState \<Rightarrow> error + ProbeState" where
  "testMutation transport act ctx baselineAllowedParams baselineDeniedParams
      baselineNonexistentParams mutation st =
     (case st of (mutationResults, usefulMuts, sent) \<Rightarrow>
      let mutatedAllowedParams = apply mutation baselineAllowedParams (allowedTopicArn ctx);
          mutatedDeniedParams = apply mutation baselineDeniedParams (deniedTopicArn ctx);
          mutatedNonexistentParams =
            apply mutation baselineNonexistentParams (nonexistentTopicArn ctx)
      in
      if \<not> didMutationChangeParams baselineAllowedParams mutatedAllowedParams then
        Inr (mutationResults, usefulMuts, sent)
      else
        (case sendSignedRequest transport sent (allowedEndpoint ctx) mutatedAllowedParams
                (allowedRegion ctx) of
           Inl e \<Rightarrow> Inl e
         | Inr (mutatedAllowed, sent1) \<Rightarrow>
        (case sendSignedRequest transport sent1 (deniedEndpoint ctx) mutatedDeniedParams
                (deniedRegion ctx) of
           Inl e \<Rightarrow> Inl e
         | Inr (mutatedDenied, sent2) \<Rightarrow>
        (case sendSignedRequest transport sent2 (nonexistentEndpoint ctx)
                mutatedNonexistentParams (nonexistentRegion ctx) of
           Inl e \<Rightarrow> Inl e
         | Inr (mutatedNonexistent, sent3) \<Rightarrow>
             let mutationTopics =
                   \<lparr>allowed = buildTopicResult mutatedAllowed,
                    denied = buildTopicResult mutatedDenied,
                    nonexistent = buildTopicResult mutatedNonexistent\<rparr>;
                 usefulResult =
                   isUsefulMutation mutationTopics (Some (Mutation.name mutation))
                     (Some (Action.name act));
                 mutationResult =
                   \<lparr>allowed = allowed mutationTopics,
                    denied = denied mutationTopics,
                    nonexistent = nonexistent mutationTopics,
                    mutationName = Mutation.name mutation,
                    mutationDescription = description mutation,
                    mutationUseful = useful usefulResult,
                    mutationReason = Some (reason usefulResult)\<rparr>
             in Inr (mutationResults @ [mutationResult],
                     (if mutationUseful mutationResult then usefulMuts @ [mutationResult]
                      else usefulMuts),
                     sent3)))))"

fun testMutations ::
  "Transport \<Rightarrow> Action \<Rightarrow> MutationTestContext \<Rightarrow> Params \<Rightarrow> Params \<Rightarrow> Params
   \<Rightarrow> Mutation list \<Rightarrow> ProbeState \<Rightarrow> error + ProbeState" where
  "testMutations transport act ctx bA bD bN [] st = Inr st"
| "testMutations transport act ctx bA bD bN (mutation # rest) st =
     (case testMutation transport act ctx bA bD bN mutation st of
        Inl e \<Rightarrow> Inl e
      | Inr st' \<Rightarrow> testMutations transport act ctx bA bD bN rest st')"

definition testActionMutations ::
  "Transport \<Rightarrow> Action \<Rightarrow> MutationTestContext \<Rightarrow> SentRequest list
   \<Rightarrow> error + (ActionMutationResult \<times> SentRequest list)" where
  "testActionMutations transport act ctx sent =
     (case buildParams act (allowedTopicArn ctx) of
        Inl e \<Rightarrow> Inl e
      | Inr baselineAllowedParams \<Rightarrow>
     (case buildParams act (deniedTopicArn ctx) of
        Inl e \<Rightarrow> Inl e
      | Inr baselineDeniedParams \<Rightarrow>
     (case buildParams act (nonexistentTopicArn ctx) of
        Inl e \<Rightarrow> Inl e
      | Inr baselineNonexistentParams \<Rightarrow>
     (case sendSignedRequest transport sent (allowedEndpoint ctx) baselineAllowedParams
             (allowedRegion ctx) of
        Inl e \<Rightarrow> Inl e
      | Inr (baselineAllowed, sent1) \<Rightarrow>
     (case sendSignedRequest transport sent1 (deniedEndpoint ctx) baselineDeniedParams
             (deniedRegion ctx) of
        Inl e \<Rightarrow> Inl e
      | Inr (baselineDenied, sent2) \<Rightarrow>
     (case sendSignedRequest transport sent2 (nonexistentEndpoint ctx)
             baselineNonexistentParams (nonexistentRegion ctx) of
        Inl e \<Rightarrow> Inl e
      | Inr (baselineNonexistent, sent3) \<Rightarrow>
     (case testMutations transport act ctx baselineAllowedParams baselineDeniedParams
             baselineNonexistentParams (getMutationsForAction (Action.name act))
             ([], [], sent3) of
        Inl e \<Rightarrow> Inl e
      | Inr (mutationResults, usefulMuts, sent') \<Rightarrow>
          Inr (\<lparr>action = Action.name act,
                baseline = \<lparr>allowed = buildTopicResult baselineAllowed,
                            denied = buildTopicResult baselineDenied,
                            nonexistent = buildTopicResult baselineNonexistent\<rparr>,
                mutations = mutationResults,
                usefulMutations = usefulMuts\<rparr>,
               sent'))))))))"

subsection \<open>The run\<close>

text \<open>The loop over the actions in \<^verbatim>\<open>runRequestMutations\<close>.\<close>

fun testActions ::
  "Transport \<Rightarrow> MutationTestContext \<Rightarrow> Action list
   \<Rightarrow> ActionMutationResult list \<times> SentRequest list
   \<Rightarrow> error + (ActionMutationResult list \<times> SentRequest list)" where
  "testActions transport ctx [] st = Inr st"
| "testActions transport ctx (act # rest) (actionResults, sent) =
     (case testActionMutations transport act ctx sent of
        Inl e \<Rightarrow> Inl e
      | Inr (result, sent') \<Rightarrow> testActions transport ctx rest (actionResults @ [result], sent'))"

text \<open>
  \<^verbatim>\<open>runRequestMutations(options)\<close>. The arguments are the network, the value that
  \<^verbatim>\<open>randomUUID()\<close> returns, the outcome of loading and verifying the credentials for a
  region (the error thrown, if any; both steps are outside the model) and the fields of
  the options that the function reads: \<^verbatim>\<open>topicArn\<close>, \<^verbatim>\<open>compare\<close>, \<^verbatim>\<open>mode\<close> and
  \<^verbatim>\<open>region\<close>. Printing and the summary file are not modelled.
\<close>

definition runRequestMutations ::
  "Transport \<Rightarrow> string \<Rightarrow> (string \<Rightarrow> error option) \<Rightarrow> string \<Rightarrow> string option \<Rightarrow> Mode
   \<Rightarrow> string option \<Rightarrow> error + (RequestMutationsResult \<times> SentRequest list)" where
  "runRequestMutations transport randomUUID credentialsFailure allowedArn deniedArn md
      regionOption =
     (if \<not> truthy deniedArn then
        Inl (Error ''Request mutations mode requires --compare <deny-topic-arn>'')
      else
     (case generateNonexistentTopicArn randomUUID allowedArn of
        Inl e \<Rightarrow> Inl e
      | Inr nonexistentArn \<Rightarrow>
     (case (if truthy regionOption then Inr (strToString regionOption)
            else getRegionFromArn allowedArn) of
        Inl e \<Rightarrow> Inl e
      | Inr allowedRg \<Rightarrow>
     (case getRegionFromArn (strToString deniedArn) of
        Inl e \<Rightarrow> Inl e
      | Inr deniedRg \<Rightarrow>
     (case credentialsFailure allowedRg of
        Some e \<Rightarrow> Inl e
      | None \<Rightarrow>
          let ctx = \<lparr>allowedTopicArn = allowedArn,
                     deniedTopicArn = strToString deniedArn,
                     nonexistentTopicArn = nonexistentArn,
                     allowedRegion = allowedRg,
                     deniedRegion = deniedRg,
                     nonexistentRegion = allowedRg,
                     allowedEndpoint = getEndpointForRegion allowedRg,
                     deniedEndpoint = getEndpointForRegion deniedRg,
                     nonexistentEndpoint = getEndpointForRegion allowedRg\<rparr>;
              acts = getActionsByMode md
          in
          (case testActions transport ctx acts ([], []) of
             Inl e \<Rightarrow> Inl e
           | Inr (actionResults, sent) \<Rightarrow>
               Inr (\<lparr>allowedTopicArn = allowedArn,
                     deniedTopicArn = strToString deniedArn,
                     nonexistentTopicArn = nonexistentArn,
                     mode = md,
                     actions = actionResults,
                     summary =
                       \<lparr>totalActions = length acts,
                        totalMutationsTested =
                          sum_list (map (\<lambda>r. length (mutations r)) actionResults),
                        usefulMutationsFound =
                          sum_list (map (\<lambda>r. length (usefulMutations r)) actionResults)\<rparr>\<rparr>,
                    sent)))))))"

text \<open>
  For claim C5: the network that rejects the request made when \<open>n\<close> requests have been
  answered, and behaves as the given one otherwise.
\<close>

definition rejectAt :: "nat \<Rightarrow> error \<Rightarrow> Transport \<Rightarrow> Transport" where
  "rejectAt n e transport =
     (\<lambda>sent request. if length sent = n then Inl e else transport sent request)"

text \<open>
  Inputs for the examples: a network that answers every request with an empty 200
  response, credentials that load and verify, two topic ARNs and a UUID.
\<close>

definition alwaysOk :: Transport where
  "alwaysOk = (\<lambda>sent request. Inr \<lparr>httpStatus = 200, statusText = ''OK'', headers = [], body = []\<rparr>)"

definition credentialsOk :: "string \<Rightarrow> error option" where
  "credentialsOk = (\<lambda>rg. None)"

definition exampleAllowedArn :: string where
  "exampleAllowedArn = ''arn:aws:sns:us-east-1:123456789012:allowed-topic''"

definition exampleDeniedArn :: string where
  "exampleDeniedArn = ''arn:aws:sns:us-east-1:210987654321:denied-topic''"

definition exampleUUID :: string where
  "exampleUUID = ''3f2b8c1e-5d4a-4f6b-9c7d-0a1b2c3d4e5f''"

definition exampleContext :: MutationTestContext where
  "exampleContext =
     \<lparr>allowedTopicArn = exampleAllowedArn,
      deniedTopicArn = exampleDeniedArn,
      nonexistentTopicArn =
        ''arn:aws:sns:us-east-1:123456789012:nonexistent-3f2b8c1e-5d4a-4f6b-9c7d-0a1b2c3d4e5f'',
      allowedRegion = ''us-east-1'', deniedRegion = ''us-east-1'',
      nonexistentRegion = ''us-east-1'',
      allowedEndpoint = ''https://sns.us-east-1.amazonaws.com'',
      deniedEndpoint = ''https://sns.us-east-1.amazonaws.com'',
      nonexistentEndpoint = ''https://sns.us-east-1.amazonaws.com''\<rparr>"


section \<open>Properties of the classifier\<close>

lemma decimal_403: "decimal 403 = ''403''"
  by (simp add: decimal.simps)

lemma decimal_404: "decimal 404 = ''404''"
  by (simp add: decimal.simps)

lemma errorCode_topicResult: "errorCode (topicResult st c) = c"
  by (cases c) (simp_all add: errorCode_def topicResult_def orElse_def truthy_def)

lemma status_topicResult: "status (topicResult st c) = st"
  by (simp add: topicResult_def)

lemma safe_list_names_nonempty:
  assumes "(an @ '':'' @ mn) \<in> set SAFE_PROBE_MUTATIONS"
  shows "an \<noteq> [] \<and> mn \<noteq> []"
proof -
  have "an \<noteq> []" using assms by (auto simp: SAFE_PROBE_MUTATIONS_def)
  moreover have "mn \<noteq> []"
  proof
    assume "mn = []"
    with assms have "\<exists>s \<in> set SAFE_PROBE_MUTATIONS. an @ '':'' = s" by simp
    then obtain s where s: "s \<in> set SAFE_PROBE_MUTATIONS" "an @ '':'' = s" by blast
    from s(2) have "last s = CHR '':''" by (metis last_snoc)
    with s(1) show False by (auto simp: SAFE_PROBE_MUTATIONS_def)
  qed
  ultimately show ?thesis by simp
qed

lemma denied_not_403_no_noop: "status (denied m) \<noteq> 403 \<Longrightarrow> \<not> isNoopProbe m mn an"
  by (simp add: isNoopProbe_def)

text \<open>
  Claim C1. A triple that reaches the safe-probe rule (allowed status not 403, denied status
  403, the nonexistent outcome not reproducing both the allowed status and the allowed error
  code) with a nonexistent status of 403 or 404 and an allowed status in 400..499 is
  classified useful, and the reason is the safe-probe text, which starts with
  ``Safe probe: auth passed''. The names of the mutation and the action play no role.
\<close>

theorem safe_probe_useful:
  assumes "status (allowed m) \<noteq> 403" and "status (denied m) = 403"
    and "\<not> (errorCode (nonexistent m) = errorCode (allowed m)
             \<and> status (nonexistent m) = status (allowed m))"
    and "status (nonexistent m) = 403 \<or> status (nonexistent m) = 404"
    and "400 \<le> status (allowed m)" and "status (allowed m) < 500"
  shows \<open>isUsefulMutation m mn an =
          \<lparr>useful = True,
           reason = ''Safe probe: auth passed then "'' @ strToString (errorCode (allowed m))
                    @ ''" (denied=403, nonexistent='' @ numToString (status (nonexistent m))
                    @ '')''\<rparr>
         \<and> prefix ''Safe probe: auth passed'' (reason (isUsefulMutation m mn an))\<close>
proof -
  have "\<not> isNoopProbe m mn an"
    using assms(5) by (simp add: isNoopProbe_def)
  then have eq: \<open>isUsefulMutation m mn an =
          \<lparr>useful = True,
           reason = ''Safe probe: auth passed then "'' @ strToString (errorCode (allowed m))
                    @ ''" (denied=403, nonexistent='' @ numToString (status (nonexistent m))
                    @ '')''\<rparr>\<close>
    using assms unfolding isUsefulMutation_def Let_def by auto
  show ?thesis
    unfolding eq by simp
qed

theorem safe_probe_useful_witness:
  \<open>isUsefulMutation
     \<lparr>allowed = topicResult 400 (Some ''InvalidParameter''),
      denied = topicResult 403 (Some ''AuthorizationError''),
      nonexistent = topicResult 403 (Some ''AuthorizationError'')\<rparr> None None =
    \<lparr>useful = True,
     reason = ''Safe probe: auth passed then "InvalidParameter" (denied=403, nonexistent=403)''\<rparr>\<close>
  using safe_probe_useful [of
      "\<lparr>allowed = topicResult 400 (Some ''InvalidParameter''),
        denied = topicResult 403 (Some ''AuthorizationError''),
        nonexistent = topicResult 403 (Some ''AuthorizationError'')\<rparr>" None None]
  by (simp add: errorCode_topicResult status_topicResult strToString_def numToString_def
      decimal_403)

text \<open>
  Claim C2. When the key \<^verbatim>\<open>action:mutation\<close> is in the safe-probe set, the allowed status
  is 200 and the denied status is 403, the verdict is useful with the no-op-probe reason,
  whatever the nonexistent outcome and the error codes are. The pair
  (UntagResource, nonexistent-tag-key) is in the set.
\<close>

theorem noop_probe_useful:
  assumes "(an @ '':'' @ mn) \<in> set SAFE_PROBE_MUTATIONS"
    and "status (allowed m) = 200" and "status (denied m) = 403"
  shows "isUsefulMutation m (Some mn) (Some an) =
          \<lparr>useful = True, reason = ''No-op probe: 200 success with no side effects''\<rparr>"
proof -
  have "isNoopProbe m (Some mn) (Some an)"
    using assms safe_list_names_nonempty [OF assms(1)]
    by (simp add: isNoopProbe_def truthy_def strToString_def)
  then show ?thesis by (simp add: isUsefulMutation_def)
qed

theorem noop_probe_useful_witness:
  "(''UntagResource'' @ '':'' @ ''nonexistent-tag-key'') \<in> set SAFE_PROBE_MUTATIONS
   \<and> isUsefulMutation
        \<lparr>allowed = topicResult 200 None,
         denied = topicResult 403 (Some ''AuthorizationError''),
         nonexistent = topicResult 404 (Some ''NotFound'')\<rparr>
        (Some ''nonexistent-tag-key'') (Some ''UntagResource'') =
       \<lparr>useful = True, reason = ''No-op probe: 200 success with no side effects''\<rparr>"
  using noop_probe_useful [of "''UntagResource''" "''nonexistent-tag-key''"
      "\<lparr>allowed = topicResult 200 None,
         denied = topicResult 403 (Some ''AuthorizationError''),
         nonexistent = topicResult 404 (Some ''NotFound'')\<rparr>"]
  by (simp add: SAFE_PROBE_MUTATIONS_def status_topicResult)

text \<open>
  Claim C3. An allowed status of 403 gives a verdict that is not useful, whatever the denied
  and nonexistent outcomes are and whatever names are passed (so also for a pair of the
  safe-probe set): the no-op rule needs an allowed status of 200.
\<close>

theorem allowed_403_not_useful:
  assumes "status (allowed m) = 403"
  shows "isUsefulMutation m mn an =
          \<lparr>useful = False, reason = ''Allowed topic returned 403 (auth failed)''\<rparr>"
  using assms by (simp add: isUsefulMutation_def isNoopProbe_def)

theorem allowed_403_not_useful_witness:
  "isUsefulMutation
     \<lparr>allowed = topicResult 403 (Some ''AuthorizationError''),
      denied = topicResult 403 (Some ''AuthorizationError''),
      nonexistent = topicResult 404 (Some ''NotFound'')\<rparr>
     (Some ''nonexistent-tag-key'') (Some ''UntagResource'') =
    \<lparr>useful = False, reason = ''Allowed topic returned 403 (auth failed)''\<rparr>"
  using allowed_403_not_useful [of
      "\<lparr>allowed = topicResult 403 (Some ''AuthorizationError''),
        denied = topicResult 403 (Some ''AuthorizationError''),
        nonexistent = topicResult 404 (Some ''NotFound'')\<rparr>"
      "Some ''nonexistent-tag-key''" "Some ''UntagResource''"]
  by (simp add: status_topicResult)

text \<open>
  Claim C4, as the code has it. Two absent error codes are equal for \<^verbatim>\<open>===\<close>, so they
  count as matching. With both the allowed and the denied code absent and neither status
  403, the verdict is the pre-auth verdict of the denied-not-403 rule, printing the code as
  \<^verbatim>\<open>undefined\<close>. With the allowed and the nonexistent code absent, equal statuses, a
  denied status of 403, an allowed status other than 403 and the no-op rule not applying,
  the verdict is the pre-auth verdict of the nonexistent-matches-allowed rule.
\<close>

theorem absent_codes_match:
  \<open>(errorCode (allowed m) = None \<and> errorCode (denied m) = None
      \<and> status (allowed m) \<noteq> 403 \<and> status (denied m) \<noteq> 403
     \<longrightarrow> isUsefulMutation m mn an =
          \<lparr>useful = False,
           reason = ''Pre-auth validation: all topics return "undefined" (auth not checked)''\<rparr>)
   \<and> (errorCode (allowed m) = None \<and> errorCode (nonexistent m) = None
      \<and> status (nonexistent m) = status (allowed m)
      \<and> status (allowed m) \<noteq> 403 \<and> status (denied m) = 403
      \<and> \<not> isNoopProbe m mn an
     \<longrightarrow> isUsefulMutation m mn an =
          \<lparr>useful = False,
           reason = ''Pre-auth validation: nonexistent also returns "undefined"''\<rparr>)\<close>
  using denied_not_403_no_noop [of m mn an]
  by (auto simp add: isUsefulMutation_def Let_def strToString_def)

theorem absent_codes_match_witness:
  \<open>isUsefulMutation
     \<lparr>allowed = topicResult 500 None, denied = topicResult 500 None,
      nonexistent = topicResult 500 None\<rparr> None None =
    \<lparr>useful = False,
     reason = ''Pre-auth validation: all topics return "undefined" (auth not checked)''\<rparr>
   \<and> isUsefulMutation
     \<lparr>allowed = topicResult 200 None, denied = topicResult 403 (Some ''AuthorizationError''),
      nonexistent = topicResult 200 None\<rparr> (Some ''remove-version'') (Some ''Publish'') =
    \<lparr>useful = False,
     reason = ''Pre-auth validation: nonexistent also returns "undefined"''\<rparr>\<close>
  using absent_codes_match [of
      "\<lparr>allowed = topicResult 500 None, denied = topicResult 500 None,
        nonexistent = topicResult 500 None\<rparr>" None None]
    absent_codes_match [of
      "\<lparr>allowed = topicResult 200 None, denied = topicResult 403 (Some ''AuthorizationError''),
        nonexistent = topicResult 200 None\<rparr>" "Some ''remove-version''" "Some ''Publish''"]
  by (simp add: errorCode_topicResult status_topicResult isNoopProbe_def
      SAFE_PROBE_MUTATIONS_def strToString_def)

text \<open>
  Claim C4 as stated fails: with no error code on the allowed and the denied side and a
  denied status of 400, the verdict is the identical-failure verdict of the denied-not-403
  rule; with no error code on the allowed and the nonexistent side and equal statuses, it
  is the verdict of the nonexistent-matches-allowed rule.
\<close>

theorem absent_codes_counterexample:
  \<open>isUsefulMutation
     \<lparr>allowed = topicResult 400 None, denied = topicResult 400 None,
      nonexistent = topicResult 403 (Some ''AuthorizationError'')\<rparr> None None =
    \<lparr>useful = False,
     reason = ''Pre-auth validation: all topics return "undefined" (auth not checked)''\<rparr>
   \<and> isUsefulMutation
     \<lparr>allowed = topicResult 400 None, denied = topicResult 403 (Some ''AuthorizationError''),
      nonexistent = topicResult 400 None\<rparr> None None =
    \<lparr>useful = False,
     reason = ''Pre-auth validation: nonexistent also returns "undefined"''\<rparr>\<close>
  by (simp add: isUsefulMutation_def isNoopProbe_def strToString_def truthy_def
      errorCode_topicResult status_topicResult)

text \<open>
  Claim C10. A useful verdict implies a denied status of 403: the no-op rule tests it, and
  the safe-probe rule is reached only after the denied-not-403 rule has been passed.
\<close>

theorem useful_denied_403:
  "useful (isUsefulMutation m mn an) \<Longrightarrow> status (denied m) = 403"
  unfolding isUsefulMutation_def Let_def isNoopProbe_def
  by (auto split: if_splits)

theorem useful_denied_403_witness:
  "useful (isUsefulMutation
     \<lparr>allowed = topicResult 400 (Some ''InvalidParameter''),
      denied = topicResult 403 (Some ''AuthorizationError''),
      nonexistent = topicResult 404 (Some ''NotFound'')\<rparr> None None)
   \<and> status (denied
     \<lparr>allowed = topicResult 400 (Some ''InvalidParameter''),
      denied = topicResult 403 (Some ''AuthorizationError''),
      nonexistent = topicResult 404 (Some ''NotFound'')\<rparr>) = 403"
  using useful_denied_403 [of
      "\<lparr>allowed = topicResult 400 (Some ''InvalidParameter''),
        denied = topicResult 403 (Some ''AuthorizationError''),
        nonexistent = topicResult 404 (Some ''NotFound'')\<rparr>" None None]
  by (simp add: isUsefulMutation_def isNoopProbe_def truthy_def
      errorCode_topicResult status_topicResult)

section \<open>Properties of the action catalog\<close>

lemmas action_defs = GetTopicAttributes_def GetDataProtectionPolicy_def
  ListSubscriptionsByTopic_def ListTagsForResource_def Publish_def PublishBatch_def
  Subscribe_def TagResource_def UntagResource_def AddPermission_def RemovePermission_def
  SetTopicAttributes_def PutDataProtectionPolicy_def DeleteTopic_def

lemma names_all:
  "map Action.name (getActionsByMode mode_all) =
     [''GetTopicAttributes'', ''GetDataProtectionPolicy'', ''ListSubscriptionsByTopic'',
      ''ListTagsForResource'', ''Publish'', ''PublishBatch'', ''Subscribe'', ''TagResource'',
      ''UntagResource'', ''AddPermission'', ''RemovePermission'', ''SetTopicAttributes'',
      ''PutDataProtectionPolicy'', ''DeleteTopic'']"
  by (simp add: getAllActions_def ALL_ACTIONS_def action_defs)

lemma names_safe:
  "map Action.name (getActionsByMode mode_safe) =
     [''GetTopicAttributes'', ''GetDataProtectionPolicy'', ''ListSubscriptionsByTopic'',
      ''ListTagsForResource'', ''Publish'', ''PublishBatch'', ''Subscribe'', ''TagResource'',
      ''UntagResource'', ''AddPermission'']"
  by (simp add: getSafeActions_def ALL_ACTIONS_def action_defs)

lemma names_read:
  "map Action.name (getActionsByMode mode_read) =
     [''GetTopicAttributes'', ''GetDataProtectionPolicy'', ''ListSubscriptionsByTopic'',
      ''ListTagsForResource'']"
  by (simp add: getReadActions_def ALL_ACTIONS_def action_defs)

text \<open>
  Claim C9, as the code has it. In the lists for the modes read and all, every occurrence
  of AddPermission is directly followed by RemovePermission (the read list has no
  AddPermission; in the full list the two are adjacent). In the list for the mode safe,
  AddPermission is the last action and RemovePermission does not occur: AddPermission is
  declared safe and RemovePermission is not.
\<close>

theorem grant_revoke_adjacent:
  "immediatelyFollowedBy ''AddPermission'' ''RemovePermission''
     (map Action.name (getActionsByMode mode_read))
   \<and> immediatelyFollowedBy ''AddPermission'' ''RemovePermission''
     (map Action.name (getActionsByMode mode_all))
   \<and> last (map Action.name (getActionsByMode mode_safe)) = ''AddPermission''
   \<and> ''RemovePermission'' \<notin> set (map Action.name (getActionsByMode mode_safe))"
  unfolding names_all names_safe names_read by simp

theorem grant_revoke_adjacent_witness: "''AddPermission'' \<in> set (map Action.name (getActionsByMode mode_all))
   \<and> immediatelyFollowedBy ''AddPermission'' ''RemovePermission''
     (map Action.name (getActionsByMode mode_all))"
proof -
  have "''AddPermission'' \<in> set (map Action.name (getActionsByMode mode_all))"
    unfolding names_all by simp
  with grant_revoke_adjacent show ?thesis by blast
qed

text \<open>
  Claim C9 as stated fails for the mode safe: AddPermission is scheduled and nothing
  follows it.
\<close>

theorem safe_mode_grant_counterexample: "\<not> immediatelyFollowedBy ''AddPermission'' ''RemovePermission''
     (map Action.name (getActionsByMode mode_safe))"
  unfolding names_safe by simp

section \<open>Properties of the ARN functions\<close>

lemma split_nonempty: "split c s \<noteq> []"
  by (induction s) (auto split: list.splits)

lemma split_append_sep: "c \<notin> set a \<Longrightarrow> split c (a @ c # rest) = a # split c rest"
  by (induction a) (auto split: list.splits)

lemma split_elems_no_sep: "p \<in> set (split c s) \<Longrightarrow> c \<notin> set p"
  by (induction s arbitrary: p) (auto split: list.splits if_splits)

lemma join_split: "join [c] (split c s) = s"
proof (induction s)
  case Nil
  then show ?case by simp
next
  case (Cons x xs)
  obtain p ps where sp: "split c xs = p # ps"
    using split_nonempty [of c xs] by (cases "split c xs") auto
  show ?case
  proof (cases "x = c")
    case True
    with Cons sp show ?thesis by simp
  next
    case False
    with Cons sp show ?thesis by (cases ps) auto
  qed
qed

lemma join_Cons: "ps \<noteq> [] \<Longrightarrow> join sep (p # ps) = p @ sep @ join sep ps"
  by (cases ps) auto

lemma suffix_join_drop: "ps \<noteq> [] \<Longrightarrow> suffix (join sep ps) (join sep (p # ps))"
  by (simp add: join_Cons suffix_def) 

lemma parseArn_built:
  assumes "CHR '':'' \<notin> set a1" "CHR '':'' \<notin> set a3" "CHR '':'' \<notin> set a4" "a1 \<noteq> []"
  shows "parseArn (''arn:'' @ a1 @ '':sns:'' @ a3 @ '':'' @ a4 @ '':'' @ res) =
      Inr \<lparr>partition = a1, service = ''sns'', region = a3, accountId = a4, resource = res\<rparr>"
proof -
  define out where "out = ''arn:'' @ a1 @ '':sns:'' @ a3 @ '':'' @ a4 @ '':'' @ res"
  have out_eq: "out = ''arn'' @ CHR '':'' # (a1 @ CHR '':'' # (''sns'' @ CHR '':'' #
      (a3 @ CHR '':'' # (a4 @ CHR '':'' # res))))"
    by (simp add: out_def)
  have sp: "split CHR '':'' out = ''arn'' # a1 # ''sns'' # a3 # a4 # split CHR '':'' res"
    unfolding out_eq using assms by (simp add: split_append_sep del: append.simps split.simps)
  obtain r rs where rs: "split CHR '':'' res = r # rs"
    using split_nonempty [of "CHR '':''" res] by (cases "split CHR '':'' res") auto
  have jn: "join '':'' (r # rs) = res"
    using join_split [of "CHR '':''" res] rs by simp
  have "out \<noteq> []" by (simp add: out_def)
  then have "parseArn out =
      Inr \<lparr>partition = a1, service = ''sns'', region = a3, accountId = a4, resource = res\<rparr>"
    using assms(4) jn by (simp add: parseArn_def sp rs)
  then show ?thesis by (simp add: out_def)
qed

text \<open>
  Claim C8, as the code has it. When the allowed ARN splits at its colons into at least six
  parts, the first part is \<^verbatim>\<open>arn\<close> and the partition and the service are not empty (the
  ARNs that \<^verbatim>\<open>parseArn\<close> accepts), \<^verbatim>\<open>generateNonexistentTopicArn\<close> returns an ARN that
  \<^verbatim>\<open>parseArn\<close> accepts, with the partition, region and account of the allowed ARN, the
  service \<^verbatim>\<open>sns\<close> and the resource \<^verbatim>\<open>nonexistent-\<close> followed by the UUID. When the
  UUID does not occur in the allowed ARN, this resource differs from the allowed one.
\<close>

theorem nonexistent_arn_same_scope:
  assumes parts: "split CHR '':'' allowedArn =
      prefix' # partition' # service' # region' # accountId' # resourceParts"
    and six: "resourceParts \<noteq> []"
    and "prefix' = ''arn''" and "partition' \<noteq> []" and "service' \<noteq> []"
  shows "\<exists>out. generateNonexistentTopicArn guid allowedArn = Inr out
           \<and> parseArn out =
               Inr \<lparr>partition = partition', service = ''sns'', region = region',
                    accountId = accountId', resource = ''nonexistent-'' @ guid\<rparr>
           \<and> (\<not> sublist guid allowedArn
                \<longrightarrow> join '':'' resourceParts \<noteq> ''nonexistent-'' @ guid)"
proof -
  have ne: "allowedArn \<noteq> []"
    using parts by auto
  have pa: "parseArn allowedArn =
      Inr \<lparr>partition = partition', service = service', region = region',
           accountId = accountId', resource = join '':'' resourceParts\<rparr>"
    using ne assms by (simp add: parseArn_def)
  define out where "out = ''arn:'' @ partition' @ '':sns:'' @ region' @ '':''
               @ accountId' @ '':nonexistent-'' @ guid"
  have gen: "generateNonexistentTopicArn guid allowedArn = Inr out"
    by (simp add: generateNonexistentTopicArn_def pa out_def)
  have nocolon: "CHR '':'' \<notin> set partition'" "CHR '':'' \<notin> set region'"
    "CHR '':'' \<notin> set accountId'"
    using split_elems_no_sep [of _ "CHR '':''" allowedArn] parts by auto
  have po: "parseArn out =
      Inr \<lparr>partition = partition', service = ''sns'', region = region',
           accountId = accountId', resource = ''nonexistent-'' @ guid\<rparr>"
    using parseArn_built [OF nocolon assms(4), of "''nonexistent-'' @ guid"]
    by (simp add: out_def)
  have fresh: "join '':'' resourceParts \<noteq> ''nonexistent-'' @ guid"
    if "\<not> sublist guid allowedArn"
  proof
    assume eq: "join '':'' resourceParts = ''nonexistent-'' @ guid"
    have "allowedArn = join '':'' (split CHR '':'' allowedArn)"
      by (simp add: join_split)
    also have "\<dots> = prefix' @ '':'' @ partition' @ '':'' @ service' @ '':'' @ region' @ '':''
        @ accountId' @ '':'' @ join '':'' resourceParts"
      unfolding parts using six by (simp add: join_Cons)
    finally have "allowedArn = (prefix' @ '':'' @ partition' @ '':'' @ service' @ '':''
        @ region' @ '':'' @ accountId' @ '':'' @ ''nonexistent-'') @ guid @ []"
      using eq by simp
    then have "sublist guid allowedArn"
      unfolding sublist_def by blast
    with that show False by simp
  qed
  from gen po fresh show ?thesis by blast
qed


theorem nonexistent_arn_same_scope_witness:
  "generateNonexistentTopicArn exampleUUID exampleAllowedArn =
     Inr ''arn:aws:sns:us-east-1:123456789012:nonexistent-3f2b8c1e-5d4a-4f6b-9c7d-0a1b2c3d4e5f''
   \<and> parseArn
       ''arn:aws:sns:us-east-1:123456789012:nonexistent-3f2b8c1e-5d4a-4f6b-9c7d-0a1b2c3d4e5f'' =
     Inr \<lparr>partition = ''aws'', service = ''sns'', region = ''us-east-1'',
          accountId = ''123456789012'',
          resource = ''nonexistent-3f2b8c1e-5d4a-4f6b-9c7d-0a1b2c3d4e5f''\<rparr>
   \<and> join '':'' [''allowed-topic''] \<noteq> ''nonexistent-3f2b8c1e-5d4a-4f6b-9c7d-0a1b2c3d4e5f''"
proof -
  have parts: "split CHR '':'' exampleAllowedArn =
      ''arn'' # ''aws'' # ''sns'' # ''us-east-1'' # ''123456789012'' # [''allowed-topic'']"
    by (simp add: exampleAllowedArn_def)
  have fresh: "\<not> sublist exampleUUID exampleAllowedArn"
    by code_simp
  have gen: "generateNonexistentTopicArn exampleUUID exampleAllowedArn =
     Inr ''arn:aws:sns:us-east-1:123456789012:nonexistent-3f2b8c1e-5d4a-4f6b-9c7d-0a1b2c3d4e5f''"
    by (simp add: generateNonexistentTopicArn_def parseArn_def parts exampleUUID_def)
       (simp add: exampleAllowedArn_def)
  from nonexistent_arn_same_scope [OF parts, of exampleUUID] fresh gen
  show ?thesis by (auto simp: exampleUUID_def)
qed

text \<open>
  Claim C8 as stated fails: an ARN of six colon-separated parts whose partition is empty
  is rejected by \<^verbatim>\<open>parseArn\<close>, and no ARN is returned.
\<close>

theorem nonexistent_arn_counterexample:
  "length (split CHR '':'' ''arn::sns:us-east-1:123456789012:my-topic'') = 6
   \<and> generateNonexistentTopicArn exampleUUID ''arn::sns:us-east-1:123456789012:my-topic''
       = Inl (ArnParseError ''Invalid ARN: partition cannot be empty'')"
  by (simp add: generateNonexistentTopicArn_def parseArn_def)

section \<open>Properties of the mutation catalog\<close>

lemmas pattern_defs = batchMessageKey_def batchIdKey_def tagKeyKey_def tagValueKey_def
  tagMemberKey_def tagKeysMemberKey_def

lemmas mutation_defs = removeAction_def removeVersion_def endpointToArn_def removeMessage_def
  emptyMessage_def removeBatchMessage_def emptyBatchMessage_def removeBatchId_def
  emptyBatchId_def invalidActionName_def removeActionName_def invalidLabel_def emptyLabel_def
  removeLabel_def specialCharLabel_def invalidAttributeName_def removeAttributeName_def
  emptyTagKey_def removeTagKey_def nonExistentTag_def removeTags_def zeroIndexTag_def
  removeTagValue_def removeTagKeys_def emptyTagKeys_def nonExistentTagKey_def longTagKeys_def
  zeroIndexTagKey_def invalidProtocol_def removeProtocol_def invalidJsonPolicy_def
  emptyJsonPolicy_def invalidPolicyStructure_def removeDataProtectionPolicy_def longTagKey_def
  longTagValue_def longLabel_def longAttributeValue_def invalidSignatureVersion_def
  longEndpoint_def longSubject_def

lemma map_of_delete_other: "k \<noteq> K \<Longrightarrow> map_of (AList.delete k p) K = map_of p K"
  by (simp add: delete_conv')

lemma map_of_update_other: "k \<noteq> K \<Longrightarrow> map_of (AList.update k v p) K = map_of p K"
  by (simp add: update_conv')

lemma map_of_fold_delete: "K \<notin> set ks \<Longrightarrow> map_of (fold AList.delete ks p) K = map_of p K"
  by (induction ks arbitrary: p) (auto simp: map_of_delete_other)

lemma find_holds: "find P xs = Some x \<Longrightarrow> P x"
  by (auto simp: find_Some_iff)

lemma find_update_preserves:
  "\<not> P K \<Longrightarrow>
   map_of (case find P (map fst p) of None \<Rightarrow> p | Some k \<Rightarrow> AList.update k v p) K = map_of p K"
  by (auto split: option.splits dest!: find_holds intro!: map_of_update_other)

lemma find_delete_preserves:
  "\<not> P K \<Longrightarrow>
   map_of (case find P (map fst p) of None \<Rightarrow> p | Some k \<Rightarrow> AList.delete k p) K = map_of p K"
  by (auto split: option.splits dest!: find_holds intro!: map_of_delete_other)

lemma filter_delete_preserves:
  "\<not> P K \<Longrightarrow>
   map_of (let ks = filter P (map fst p) in if ks = [] then p else fold AList.delete ks p) K
     = map_of p K"
  by (auto simp: Let_def intro!: map_of_fold_delete)

lemma replace_length: "matches pat k \<Longrightarrow> length repl \<le> length (replace pat repl k)"
  by (induction k) (auto split: option.splits)

lemma renameKey_preserves:
  assumes "matches pat k" and "\<not> matches pat K" and "length K < length repl"
  shows "map_of (renameKey pat repl k r) K = map_of r K"
proof -
  have "k \<noteq> K" using assms by auto
  moreover have "replace pat repl k \<noteq> K"
    using replace_length [OF assms(1), of repl] assms(3) by auto
  ultimately show ?thesis
    by (auto simp: renameKey_def Let_def map_of_delete_other map_of_update_other
        split: option.splits)
qed

lemma fold_renameKey_preserves:
  assumes "\<forall>k \<in> set ks. matches pat k" and "\<not> matches pat K" and "length K < length repl"
  shows "map_of (fold (renameKey pat repl) ks p) K = map_of p K"
  using assms by (induction ks arbitrary: p) (auto simp: renameKey_preserves)

lemma filter_rename_preserves:
  "\<not> matches pat K \<Longrightarrow> length K < length repl \<Longrightarrow>
   map_of (let ks = filter (matches pat) (map fst p)
           in if ks = [] then p else fold (renameKey pat repl) ks p) K
     = map_of p K"
  by (simp add: Let_def fold_renameKey_preserves)

lemma arn_keys_no_match:
  "\<not> matches batchMessageKey ''TopicArn''" "\<not> matches batchMessageKey ''ResourceArn''"
  "\<not> matches batchIdKey ''TopicArn''" "\<not> matches batchIdKey ''ResourceArn''"
  "\<not> matches tagKeyKey ''TopicArn''" "\<not> matches tagKeyKey ''ResourceArn''"
  "\<not> matches tagValueKey ''TopicArn''" "\<not> matches tagValueKey ''ResourceArn''"
  "\<not> matches tagMemberKey ''TopicArn''" "\<not> matches tagMemberKey ''ResourceArn''"
  "\<not> matches tagKeysMemberKey ''TopicArn''" "\<not> matches tagKeysMemberKey ''ResourceArn''"
  by (simp_all add: pattern_defs matchAt_def)

lemma arn_keys_no_prefix:
  "\<not> startsWith ''TopicArn'' ''ActionName.member.''"
  "\<not> startsWith ''ResourceArn'' ''ActionName.member.''"
  "\<not> startsWith ''TopicArn'' ''Tags.member.''"
  "\<not> startsWith ''ResourceArn'' ''Tags.member.''"
  "\<not> startsWith ''TopicArn'' ''TagKeys.member.''"
  "\<not> startsWith ''ResourceArn'' ''TagKeys.member.''"
  by (simp_all add: startsWith_def)

lemmas preserve_rules = map_of_delete_other map_of_update_other find_update_preserves
  find_delete_preserves filter_delete_preserves filter_rename_preserves
  pattern_defs matchAt_def startsWith_def

lemma default_preserve:
  "m \<in> set defaultMutations \<Longrightarrow> K = ''TopicArn'' \<or> K = ''ResourceArn'' \<Longrightarrow>
   map_of (apply m p arn) K = map_of p K"
  by (auto simp: defaultMutations_def removeAction_def removeVersion_def preserve_rules)

lemma zeroIndexTag_preserve:
  "map_of (apply zeroIndexTag p arn) ''TopicArn'' = map_of p ''TopicArn''"
  "map_of (apply zeroIndexTag p arn) ''ResourceArn'' = map_of p ''ResourceArn''"
  using filter_rename_preserves [of tagMemberKey "''TopicArn''" "''Tags.member.0.''" p]
    filter_rename_preserves [of tagMemberKey "''ResourceArn''" "''Tags.member.0.''" p]
    arn_keys_no_match
  by (simp_all add: zeroIndexTag_def)

lemma zeroIndexTagKey_preserve:
  "map_of (apply zeroIndexTagKey p arn) ''TopicArn'' = map_of p ''TopicArn''"
  "map_of (apply zeroIndexTagKey p arn) ''ResourceArn'' = map_of p ''ResourceArn''"
  using filter_rename_preserves [of tagKeysMemberKey "''TopicArn''" "''TagKeys.member.0''" p]
    filter_rename_preserves [of tagKeysMemberKey "''ResourceArn''" "''TagKeys.member.0''" p]
    arn_keys_no_match
  by (simp_all add: zeroIndexTagKey_def)

lemmas other_mutation_defs = removeAction_def removeVersion_def endpointToArn_def
  removeMessage_def
  emptyMessage_def removeBatchMessage_def emptyBatchMessage_def removeBatchId_def
  emptyBatchId_def invalidActionName_def removeActionName_def invalidLabel_def emptyLabel_def
  removeLabel_def specialCharLabel_def invalidAttributeName_def removeAttributeName_def
  emptyTagKey_def removeTagKey_def nonExistentTag_def removeTags_def
  removeTagValue_def removeTagKeys_def emptyTagKeys_def nonExistentTagKey_def longTagKeys_def
  invalidProtocol_def removeProtocol_def invalidJsonPolicy_def
  emptyJsonPolicy_def invalidPolicyStructure_def removeDataProtectionPolicy_def longTagKey_def
  longTagValue_def longLabel_def longAttributeValue_def invalidSignatureVersion_def
  longEndpoint_def longSubject_def

lemma parameter_preserve:
  "m \<in> set parameterMutations \<Longrightarrow> K = ''TopicArn'' \<or> K = ''ResourceArn'' \<Longrightarrow>
   map_of (apply m p arn) K = map_of p K"
  unfolding parameterMutations_def set_simps insert_iff empty_iff
  apply (elim disjE)
  apply (simp_all add: zeroIndexTag_preserve zeroIndexTagKey_preserve)
  apply (simp_all add: other_mutation_defs preserve_rules)
  done


lemma baseline_has_arn:
  assumes "act \<in> set ALL_ACTIONS" and "buildParams act arn = Inr base"
  shows "map_of base (parameterKey (parameterName act)) = Some arn
         \<and> (parameterKey (parameterName act) = ''TopicArn''
            \<or> parameterKey (parameterName act) = ''ResourceArn'')"
  using assms unfolding ALL_ACTIONS_def set_simps insert_iff empty_iff
  apply (elim disjE)
  apply (auto simp: action_defs baseBuildParams_def split: sum.splits)
  done

text \<open>
  Claim C7. For every mutation of the catalog, every parameter list and every target ARN,
  looking up \<^verbatim>\<open>TopicArn\<close> and \<^verbatim>\<open>ResourceArn\<close> in the mutated parameters gives what it
  gives in the input: a resource-identifying parameter that is present stays present with
  the same value (and one that is absent stays absent). In particular, in the mutated
  baseline of every action of the catalog the action's resource parameter is present and
  is the target ARN.
\<close>

theorem mutations_preserve_arn:
  assumes "m \<in> set (defaultMutations @ parameterMutations)"
  shows "map_of (apply m p arn) ''TopicArn'' = map_of p ''TopicArn''
         \<and> map_of (apply m p arn) ''ResourceArn'' = map_of p ''ResourceArn''
         \<and> (\<forall>act \<in> set ALL_ACTIONS. \<forall>base. buildParams act target = Inr base \<longrightarrow>
               map_of (apply m base target) (parameterKey (parameterName act)) = Some target)"
proof (intro conjI ballI allI impI)
  have keep: "map_of (apply m q a) K = map_of q K"
    if "K = ''TopicArn'' \<or> K = ''ResourceArn''" for q a K
    using assms that default_preserve [of m K q a] parameter_preserve [of m K q a] by auto
  show "map_of (apply m p arn) ''TopicArn'' = map_of p ''TopicArn''"
    by (simp add: keep)
  show "map_of (apply m p arn) ''ResourceArn'' = map_of p ''ResourceArn''"
    by (simp add: keep)
  fix act base
  assume act: "act \<in> set ALL_ACTIONS" and build: "buildParams act target = Inr base"
  from baseline_has_arn [OF act build]
  have has: "map_of base (parameterKey (parameterName act)) = Some target"
    and key: "parameterKey (parameterName act) = ''TopicArn''
            \<or> parameterKey (parameterName act) = ''ResourceArn''"
    by simp_all
  from keep [OF key, of base target] has
  show "map_of (apply m base target) (parameterKey (parameterName act)) = Some target"
    by simp
qed

theorem mutations_preserve_arn_witness:
  "endpointToArn \<in> set (defaultMutations @ parameterMutations)
   \<and> apply endpointToArn
        [(''Action'', ''Subscribe''), (''TopicArn'', exampleAllowedArn), (''Protocol'', ''https''),
         (''Endpoint'', ''https://example.com/sns-buster-test''), (''Version'', ''2010-03-31'')]
        exampleAllowedArn =
       [(''Action'', ''Subscribe''), (''TopicArn'', exampleAllowedArn), (''Protocol'', ''https''),
        (''Endpoint'', exampleAllowedArn), (''Version'', ''2010-03-31'')]
   \<and> map_of (apply endpointToArn
        [(''Action'', ''Subscribe''), (''TopicArn'', exampleAllowedArn), (''Protocol'', ''https''),
         (''Endpoint'', ''https://example.com/sns-buster-test''), (''Version'', ''2010-03-31'')]
        exampleAllowedArn) ''TopicArn'' = Some exampleAllowedArn"
proof -
  have mem: "endpointToArn \<in> set (defaultMutations @ parameterMutations)"
    by (simp add: parameterMutations_def)
  from mutations_preserve_arn [OF mem, of
      "[(''Action'', ''Subscribe''), (''TopicArn'', exampleAllowedArn), (''Protocol'', ''https''),
        (''Endpoint'', ''https://example.com/sns-buster-test''), (''Version'', ''2010-03-31'')]"
      exampleAllowedArn] mem
  show ?thesis
    by (simp add: endpointToArn_def truthy_def)
qed

lemma preconditions_cover_catalog:
  "map fst mutationPreconditions = getMutationsForAction actionName"
  by (simp add: mutationPreconditions_def getMutationsForAction_def defaultMutations_def
      parameterMutations_def)

lemma absent_key_lookup: "parameterAbsent (\<lambda>k. k = K) p \<Longrightarrow> map_of p K = None"
  by (auto simp: parameterAbsent_def list_ex_iff map_of_eq_None_iff)

lemma delete_absent: "map_of p K = None \<Longrightarrow> AList.delete K p = p"
  by (induction p) (auto split: if_splits)

lemma absent_find: "parameterAbsent P p \<Longrightarrow> find P (map fst p) = None"
  by (auto simp: parameterAbsent_def list_ex_iff find_None_iff)

lemma absent_filter: "parameterAbsent P p \<Longrightarrow> filter P (map fst p) = []"
  by (auto simp: parameterAbsent_def list_ex_iff filter_empty_conv)

lemma absent_identity:
  assumes "(m, isKey) \<in> set mutationPreconditions" and "parameterAbsent isKey p"
  shows "apply m p arn = p"
  using assms unfolding mutationPreconditions_def set_simps insert_iff empty_iff prod.inject
  apply (elim disjE conjE)
  apply (simp_all add: mutation_defs absent_find absent_filter absent_key_lookup delete_absent
      truthy_def)
  done

lemma unchanged_not_detected: "\<not> didMutationChangeParams p p"
  by (simp add: didMutationChangeParams_def list_ex_iff)

text \<open>
  Claim C6. The table of preconditions lists exactly the mutations that are tried for an
  action. For each of them and every baseline parameter list (so for the baseline of every
  action) from which the precondition parameter is absent: \<^verbatim>\<open>apply\<close> returns its input,
  the change detector reports no change, and the loop body of the prober returns its state
  as it was, having sent no request and recorded no result.
\<close>

theorem absent_precondition_skipped:
  "map fst mutationPreconditions = getMutationsForAction (Action.name act)
   \<and> (\<forall>(m, isKey) \<in> set mutationPreconditions.
        parameterAbsent isKey baselineAllowedParams \<longrightarrow>
          apply m baselineAllowedParams arn = baselineAllowedParams
          \<and> \<not> didMutationChangeParams baselineAllowedParams (apply m baselineAllowedParams arn)
          \<and> testMutation transport act ctx baselineAllowedParams baselineDeniedParams
                baselineNonexistentParams m (mutationResults, usefulMuts, sent)
              = Inr (mutationResults, usefulMuts, sent))"
proof -
  have "apply m baselineAllowedParams a = baselineAllowedParams"
    if "(m, isKey) \<in> set mutationPreconditions"
      and "parameterAbsent isKey baselineAllowedParams" for m isKey a
    using that by (rule absent_identity)
  then show ?thesis
    using preconditions_cover_catalog [of "Action.name act"]
    by (auto simp: testMutation_def unchanged_not_detected)
qed


lemma emptyMessage_precondition:
  "(emptyMessage, \<lambda>k. k = ''Message'') \<in> set mutationPreconditions"
  by (simp add: mutationPreconditions_def)

theorem absent_precondition_skipped_witness:
  "parameterAbsent (\<lambda>k. k = ''Message'')
     [(''Action'', ''GetTopicAttributes''), (''TopicArn'', exampleAllowedArn),
      (''Version'', ''2010-03-31'')]
   \<and> testMutation alwaysOk GetTopicAttributes exampleContext
       [(''Action'', ''GetTopicAttributes''), (''TopicArn'', exampleAllowedArn),
        (''Version'', ''2010-03-31'')]
       [(''Action'', ''GetTopicAttributes''), (''TopicArn'', exampleDeniedArn),
        (''Version'', ''2010-03-31'')]
       [(''Action'', ''GetTopicAttributes''), (''TopicArn'', nonexistentTopicArn exampleContext),
        (''Version'', ''2010-03-31'')]
       emptyMessage ([], [], []) = Inr ([], [], [])"
  using absent_precondition_skipped [of GetTopicAttributes
      "[(''Action'', ''GetTopicAttributes''), (''TopicArn'', exampleAllowedArn),
        (''Version'', ''2010-03-31'')]" exampleAllowedArn alwaysOk exampleContext
      "[(''Action'', ''GetTopicAttributes''), (''TopicArn'', exampleDeniedArn),
        (''Version'', ''2010-03-31'')]"
      "[(''Action'', ''GetTopicAttributes''), (''TopicArn'', nonexistentTopicArn exampleContext),
        (''Version'', ''2010-03-31'')]" "[]" "[]" "[]"]
    emptyMessage_precondition
  by (auto simp: parameterAbsent_def)

section \<open>Properties of the prober\<close>

lemma send_rejectAt:
  "sendSignedRequest (rejectAt n e T) sent ep ps rg =
     (if length sent = n then Inl e else sendSignedRequest T sent ep ps rg)"
  by (simp add: sendSignedRequest_def rejectAt_def Let_def)

lemma send_length:
  "sendSignedRequest T sent ep ps rg = Inr (r, sent') \<Longrightarrow> length sent' = Suc (length sent)"
  by (auto simp: sendSignedRequest_def Let_def split: sum.splits)

lemma testMutation_rejectAt:
  assumes "testMutation T act ctx bA bD bN m (rs, us, sent) = Inr (rs', us', sent')"
  shows "length sent \<le> length sent'
         \<and> testMutation (rejectAt n e T) act ctx bA bD bN m (rs, us, sent) =
             (if length sent \<le> n \<and> n < length sent' then Inl e else Inr (rs', us', sent'))"
proof (cases "didMutationChangeParams bA (apply m bA (allowedTopicArn ctx))")
  case False
  then show ?thesis using assms by (auto simp: testMutation_def)
next
  case True
  from assms True obtain r1 s1 r2 s2 r3 where
    s1: "sendSignedRequest T sent (allowedEndpoint ctx) (apply m bA (allowedTopicArn ctx))
           (allowedRegion ctx) = Inr (r1, s1)"
    and s2: "sendSignedRequest T s1 (deniedEndpoint ctx) (apply m bD (deniedTopicArn ctx))
           (deniedRegion ctx) = Inr (r2, s2)"
    and s3: "sendSignedRequest T s2 (nonexistentEndpoint ctx)
           (apply m bN (nonexistentTopicArn ctx)) (nonexistentRegion ctx) = Inr (r3, sent')"
    by (auto simp: testMutation_def Let_def split: sum.splits prod.splits)
  have l1: "length s1 = Suc (length sent)" using send_length [OF s1] .
  have l2: "length s2 = Suc (length s1)" using send_length [OF s2] .
  have l3: "length sent' = Suc (length s2)" using send_length [OF s3] .
  show ?thesis
    using assms True s1 s2 s3 l1 l2 l3
    by (auto simp: testMutation_def Let_def send_rejectAt)
qed

lemma testMutations_rejectAt:
  assumes "testMutations T act ctx bA bD bN ms (rs, us, sent) = Inr (rs', us', sent')"
  shows "length sent \<le> length sent'
         \<and> testMutations (rejectAt n e T) act ctx bA bD bN ms (rs, us, sent) =
             (if length sent \<le> n \<and> n < length sent' then Inl e else Inr (rs', us', sent'))"
  using assms
proof (induction ms arbitrary: rs us sent)
  case Nil
  then show ?case by auto
next
  case (Cons m ms)
  from Cons.prems obtain rs1 us1 s1 where
    step: "testMutation T act ctx bA bD bN m (rs, us, sent) = Inr (rs1, us1, s1)"
    and rest: "testMutations T act ctx bA bD bN ms (rs1, us1, s1) = Inr (rs', us', sent')"
    by (auto split: sum.splits)
  from testMutation_rejectAt [OF step, of n e] Cons.IH [OF rest] step rest
  show ?case by (auto split: sum.splits)
qed

lemma testActionMutations_rejectAt:
  assumes "testActionMutations T act ctx sent = Inr (result, sent')"
  shows "length sent \<le> length sent'
         \<and> testActionMutations (rejectAt n e T) act ctx sent =
             (if length sent \<le> n \<and> n < length sent' then Inl e else Inr (result, sent'))"
proof -
  from assms obtain bA bD bN r1 s1 r2 s2 r3 s3 rs us where
    b: "buildParams act (allowedTopicArn ctx) = Inr bA"
       "buildParams act (deniedTopicArn ctx) = Inr bD"
       "buildParams act (nonexistentTopicArn ctx) = Inr bN"
    and s1: "sendSignedRequest T sent (allowedEndpoint ctx) bA (allowedRegion ctx) = Inr (r1, s1)"
    and s2: "sendSignedRequest T s1 (deniedEndpoint ctx) bD (deniedRegion ctx) = Inr (r2, s2)"
    and s3: "sendSignedRequest T s2 (nonexistentEndpoint ctx) bN (nonexistentRegion ctx)
               = Inr (r3, s3)"
    and ms: "testMutations T act ctx bA bD bN (getMutationsForAction (Action.name act))
               ([], [], s3) = Inr (rs, us, sent')"
    by (auto simp: testActionMutations_def split: sum.splits prod.splits)
  have l1: "length s1 = Suc (length sent)" using send_length [OF s1] .
  have l2: "length s2 = Suc (length s1)" using send_length [OF s2] .
  have l3: "length s3 = Suc (length s2)" using send_length [OF s3] .
  from testMutations_rejectAt [OF ms, of n e] assms b s1 s2 s3 ms l1 l2 l3
  show ?thesis
    by (auto simp: testActionMutations_def send_rejectAt)
qed

lemma testActions_rejectAt:
  assumes "testActions T ctx acts (results, sent) = Inr (results', sent')"
  shows "length sent \<le> length sent'
         \<and> testActions (rejectAt n e T) ctx acts (results, sent) =
             (if length sent \<le> n \<and> n < length sent' then Inl e else Inr (results', sent'))"
  using assms
proof (induction acts arbitrary: results sent)
  case Nil
  then show ?case by auto
next
  case (Cons act acts)
  from Cons.prems obtain r s1 where
    step: "testActionMutations T act ctx sent = Inr (r, s1)"
    and rest: "testActions T ctx acts (results @ [r], s1) = Inr (results', sent')"
    by (auto split: sum.splits)
  from testActionMutations_rejectAt [OF step, of n e] Cons.IH [OF rest] step rest
  show ?case by (auto split: sum.splits)
qed

text \<open>
  Claim C5, as the code has it. Nothing catches the rejection of a request. If a run with
  some network returns a result after sending more than \<open>n\<close> requests, then the same
  run on the network that rejects the request made after \<open>n\<close> answers (a baseline leg or
  a leg of a mutation, of any action) returns the rejection as its error, and no result.
\<close>

theorem rejection_aborts_run:
  assumes "runRequestMutations transport randomUUID credentialsFailure allowedArn deniedArn md
             regionOption = Inr (result, sent)"
    and "n < length sent"
  shows "runRequestMutations (rejectAt n e transport) randomUUID credentialsFailure allowedArn
           deniedArn md regionOption = Inl e"
proof -
  from assms(1) obtain ctx results where
    t: "testActions transport ctx (getActionsByMode md) ([], []) = Inr (results, sent)"
    and r: "\<And>T. runRequestMutations T randomUUID credentialsFailure allowedArn deniedArn md
             regionOption = (case testActions T ctx (getActionsByMode md) ([], []) of
                Inl e \<Rightarrow> Inl e | Inr (actionResults, sent) \<Rightarrow>
                  Inr (\<lparr>allowedTopicArn = allowedArn,
                     deniedTopicArn = strToString deniedArn,
                     nonexistentTopicArn = nonexistentTopicArn ctx,
                     mode = md,
                     actions = actionResults,
                     summary =
                       \<lparr>totalActions = length (getActionsByMode md),
                        totalMutationsTested =
                          sum_list (map (\<lambda>r. length (mutations r)) actionResults),
                        usefulMutationsFound =
                          sum_list (map (\<lambda>r. length (usefulMutations r)) actionResults)\<rparr>\<rparr>,
                    sent))"
    by (auto simp: runRequestMutations_def Let_def split: sum.splits option.splits if_splits)
  from testActions_rejectAt [OF t, of n e] assms(2)
  have "testActions (rejectAt n e transport) ctx (getActionsByMode md) ([], []) = Inl e"
    by simp
  then show ?thesis by (simp add: r)
qed

theorem rejection_aborts_run_witness:
  "(case runRequestMutations alwaysOk exampleUUID credentialsOk exampleAllowedArn
           (Some exampleDeniedArn) mode_read None of
      Inl err \<Rightarrow> False | Inr (result, sent) \<Rightarrow> 7 < length sent)
   \<and> runRequestMutations (rejectAt 7 (FetchRejected ''fetch failed'') alwaysOk) exampleUUID
        credentialsOk exampleAllowedArn (Some exampleDeniedArn) mode_read None
      = Inl (FetchRejected ''fetch failed'')"
proof -
  have run: "(case runRequestMutations alwaysOk exampleUUID credentialsOk exampleAllowedArn
           (Some exampleDeniedArn) mode_read None of
      Inl err \<Rightarrow> False | Inr (result, sent) \<Rightarrow> 7 < length sent)"
    by code_simp
  then obtain result sent where
    "runRequestMutations alwaysOk exampleUUID credentialsOk exampleAllowedArn
           (Some exampleDeniedArn) mode_read None = Inr (result, sent)" "7 < length sent"
    by (auto split: sum.splits)
  from rejection_aborts_run [OF this] run show ?thesis by simp
qed

text \<open>
  Claim C5 as stated fails: when the denied leg of the first mutation of the first action
  is rejected, the run ends with the error.
\<close>

theorem transport_failure_counterexample:
  "runRequestMutations (rejectAt 4 (FetchRejected ''fetch failed'') alwaysOk) exampleUUID
     credentialsOk exampleAllowedArn (Some exampleDeniedArn) mode_read None
   = Inl (FetchRejected ''fetch failed'')"
  by code_simp

end
